theory Spec2Isabelle
  imports Main
begin

section \<open>Python string primitives\<close>

text \<open>
  The device text is ASCII. A Python \<open>str\<close> is modelled as a \<open>string\<close> (a list of
  8-bit characters); the functions below are the \<open>str\<close> methods the parsers call.
\<close>

text \<open>The ASCII characters for which \<open>str.isspace()\<close> holds.\<close>

definition is_space :: "char \<Rightarrow> bool" where
  "is_space c \<longleftrightarrow>
     c = CHR '' '' \<or> c = CHR 0x09 \<or> c = CHR 0x0A \<or> c = CHR 0x0B \<or> c = CHR 0x0C \<or>
     c = CHR 0x0D \<or> c = CHR 0x1C \<or> c = CHR 0x1D \<or> c = CHR 0x1E \<or> c = CHR 0x1F"

definition is_digit :: "char \<Rightarrow> bool" where
  "is_digit c \<longleftrightarrow> c \<in> set ''0123456789''"

definition upper_letters :: string where
  "upper_letters = ''ABCDEFGHIJKLMNOPQRSTUVWXYZ''"

definition lower_letters :: string where
  "lower_letters = ''abcdefghijklmnopqrstuvwxyz''"

definition lower_char :: "char \<Rightarrow> char" where
  "lower_char c = (case map_of (zip upper_letters lower_letters) c of Some d \<Rightarrow> d | None \<Rightarrow> c)"

definition upper_char :: "char \<Rightarrow> char" where
  "upper_char c = (case map_of (zip lower_letters upper_letters) c of Some d \<Rightarrow> d | None \<Rightarrow> c)"

text \<open>\<open>s.lower()\<close> and \<open>s.upper()\<close>.\<close>

definition py_lower :: "string \<Rightarrow> string" where
  "py_lower s = map lower_char s"

definition py_upper :: "string \<Rightarrow> string" where
  "py_upper s = map upper_char s"

text \<open>\<open>s.startswith(p)\<close>.\<close>

fun startswith :: "string \<Rightarrow> string \<Rightarrow> bool" where
  "startswith s [] = True"
| "startswith [] (p # ps) = False"
| "startswith (c # cs) (p # ps) = (c = p \<and> startswith cs ps)"

text \<open>\<open>sub in s\<close>.\<close>

fun py_in :: "string \<Rightarrow> string \<Rightarrow> bool" where
  "py_in sub [] = (sub = [])"
| "py_in sub (c # cs) = (startswith (c # cs) sub \<or> py_in sub cs)"

text \<open>\<open>s.strip()\<close>.\<close>

definition py_strip :: "string \<Rightarrow> string" where
  "py_strip s = rev (dropWhile is_space (rev (dropWhile is_space s)))"

text \<open>\<open>s.split()\<close>: the maximal runs of non-whitespace characters.\<close>

fun split_ws :: "string \<Rightarrow> string \<Rightarrow> string list" where
  "split_ws acc [] = (if acc = [] then [] else [rev acc])"
| "split_ws acc (c # cs) =
     (if is_space c then (if acc = [] then split_ws [] cs else rev acc # split_ws [] cs)
      else split_ws (c # acc) cs)"

definition py_split :: "string \<Rightarrow> string list" where
  "py_split s = split_ws [] s"

text \<open>
  \<open>s.split(sep)\<close> for a non-empty separator: \<open>k\<close> counts the characters of a
  matched separator that are still to be skipped.
\<close>

fun split_sep :: "string \<Rightarrow> nat \<Rightarrow> string \<Rightarrow> string \<Rightarrow> string list" where
  "split_sep sep k acc [] = [rev acc]"
| "split_sep sep (Suc k) acc (c # cs) = split_sep sep k acc cs"
| "split_sep sep 0 acc (c # cs) =
     (if startswith (c # cs) sep then rev acc # split_sep sep (length sep - 1) [] cs
      else split_sep sep 0 (c # acc) cs)"

definition split_on :: "string \<Rightarrow> string \<Rightarrow> string list" where
  "split_on sep s = split_sep sep 0 [] s"

definition newline :: string where
  "newline = [CHR 0x0A]"

text \<open>\<open>s.replace(old, new)\<close> for a non-empty \<open>old\<close>.\<close>

fun join_with :: "string \<Rightarrow> string list \<Rightarrow> string" where
  "join_with sep [] = []"
| "join_with sep [x] = x"
| "join_with sep (x # y # ys) = x @ sep @ join_with sep (y # ys)"

definition py_replace :: "string \<Rightarrow> string \<Rightarrow> string \<Rightarrow> string" where
  "py_replace old new s = join_with new (split_on old s)"

section \<open>Python values and dictionaries\<close>

text \<open>
  A value stored in a record. A float is kept as the text that \<open>float()\<close> accepted;
  which texts it accepts is a parameter of the parsers that call it.
\<close>

datatype pyval = PNone | PStr string | PFloat string | PInt int

text \<open>
  A \<open>dict\<close> keeps insertion order: assigning to a key that is present replaces the value
  in place, assigning to a new key appends.
\<close>

fun dict_set :: "('k \<times> 'v) list \<Rightarrow> 'k \<Rightarrow> 'v \<Rightarrow> ('k \<times> 'v) list" where
  "dict_set [] k v = [(k, v)]"
| "dict_set ((k', v') # d) k v = (if k' = k then (k, v) # d else (k', v') # dict_set d k v)"

type_synonym ont_record = "(string \<times> pyval) list"
type_synonym onts_dict = "(string \<times> ont_record) list"

section \<open>Autofind table lines and vendor classification (services/ont\_service.py)\<close>

definition gpon_vendors :: "string list" where
  "gpon_vendors = [''HWTC'', ''GPTF'', ''MONU'', ''VSOL'', ''ZTEG'', ''ALCL'']"

definition xgpon_vendors :: "string list" where
  "xgpon_vendors = [''HWTX'', ''ZTEX'']"

text \<open>\<open>_detect_pon_type_from_sn\<close>.\<close>

definition detect_pon_type_from_sn :: "string \<Rightarrow> string" where
  "detect_pon_type_from_sn sn =
     (if sn = [] \<or> length sn < 4 then ''GPON''
      else let vendor = py_upper (take 4 sn) in
        if vendor \<in> set xgpon_vendors then ''XG-PON''
        else if vendor \<in> set gpon_vendors \<or> startswith vendor ''D031'' then ''GPON''
        else ''GPON'')"

text \<open>
  \<open>_parse_table_line\<close>. The result \<open>None\<close> is the Python \<open>None\<close>; the \<open>IndexError\<close>
  of \<open>split(...)[1]\<close> and the \<open>ValueError\<close> of unpacking \<open>split(':')\<close> into two
  names are caught by the source and end in \<open>return None\<close>.
\<close>

definition parse_table_line :: "string \<Rightarrow> (string \<times> string) list option" where
  "parse_table_line line =
     (case py_split line of
        onu_index # sn # rest \<Rightarrow>
          (let state = (case rest of [] \<Rightarrow> ''unknown'' | st # _ \<Rightarrow> st) in
           if py_in ''gpon-onu_'' onu_index then
             (case split_on ''gpon-onu_'' onu_index of
                _ # fsp_part # _ \<Rightarrow>
                  (case (if py_in '':'' fsp_part
                         then (case split_on '':'' fsp_part of
                                 [a, b] \<Rightarrow> Some (a, b)
                               | _ \<Rightarrow> None)
                         else Some (fsp_part, ''1'')) of
                     None \<Rightarrow> None
                   | Some (fsp, ont_id) \<Rightarrow>
                       (case split_on ''/'' fsp of
                          [frame, slot, port] \<Rightarrow>
                            (if length sn \<ge> 8 then
                               Some [(''number'', ont_id), (''fsp'', fsp), (''board'', slot),
                                     (''port'', port), (''sn'', sn), (''sn_hex'', sn),
                                     (''state'', state),
                                     (''pon_type'', detect_pon_type_from_sn sn),
                                     (''vendor_id'', if length sn \<ge> 4 then take 4 sn else ''Unknown''),
                                     (''type'', ''Unknown''), (''ont_version'', ''''),
                                     (''software_version'', ''''), (''equipment_id'', ''''),
                                     (''autofind_time'', ''''), (''password'', ''''), (''loid'', '''')]
                             else None)
                        | _ \<Rightarrow> None))
              | _ \<Rightarrow> None)
           else None)
      | _ \<Rightarrow> None)"

section \<open>The ZTE state table (services/ont\_service.py)\<close>

text \<open>The \<open>if\<close>/\<open>elif\<close> chain that derives \<open>estado\<close>.\<close>

definition zte_estado :: "string \<Rightarrow> string \<Rightarrow> string \<Rightarrow> string" where
  "zte_estado admin_state o7_state phase_state =
     (if admin_state = ''disable'' then ''disabled''
      else if phase_state = ''working'' \<and> o7_state = ''operation'' then ''online''
      else if py_lower phase_state = ''dyinggasp'' \<or> py_in ''dying'' (py_lower phase_state)
        then ''dying_gasp''
      else if phase_state = ''LOS'' \<or> phase_state = ''los'' then ''LOS''
      else if phase_state = ''Offline'' then ''offline''
      else ''offline'')"

definition zte_state_record :: "string \<Rightarrow> string \<Rightarrow> string \<Rightarrow> string \<Rightarrow> string \<Rightarrow> ont_record" where
  "zte_state_record ont_id tarjeta puerto estado onu_index =
     [(''id'', PStr ont_id), (''tarjeta'', PStr tarjeta), (''puerto'', PStr puerto),
      (''estado'', PStr estado), (''last_down_cause'', PNone), (''last_down_time'', PNone),
      (''descripcion'', PStr onu_index), (''ont_rx'', PNone), (''olt_rx'', PNone),
      (''temperature'', PNone), (''distance'', PNone)]"

text \<open>\<open>onu_index.split(':')[1]\<close>; \<open>None\<close> is the \<open>IndexError\<close>.\<close>

definition onu_index_id :: "string \<Rightarrow> string option" where
  "onu_index_id onu_index = (case split_on '':'' onu_index of _ # x # _ \<Rightarrow> Some x | _ \<Rightarrow> None)"

text \<open>One iteration of the loop of \<open>_parse_zte_state_data\<close> over the lines.\<close>

definition zte_state_line :: "string \<Rightarrow> string \<Rightarrow> string \<Rightarrow> bool \<times> onts_dict \<Rightarrow> bool \<times> onts_dict" where
  "zte_state_line tarjeta puerto raw st =
     (let line = py_strip raw; data_started = fst st; onts = snd st in
      if py_in ''---'' line then (True, onts)
      else if py_in ''OnuIndex'' line \<or> py_in ''Admin State'' line then (data_started, onts)
      else if data_started \<and> py_in ''gpon-onu_'' line then
        (case py_split line of
           onu_index # admin_state # omcc_state # o7_state # rest \<Rightarrow>
             (let phase_state = (case rest of [] \<Rightarrow> ''unknown'' | p # _ \<Rightarrow> p) in
              if py_in '':'' onu_index then
                (case onu_index_id onu_index of
                   Some ont_id \<Rightarrow>
                     (data_started,
                      dict_set onts ont_id
                        (zte_state_record ont_id tarjeta puerto
                           (zte_estado admin_state o7_state phase_state) onu_index))
                 | None \<Rightarrow> (data_started, onts))
              else (data_started, onts))
         | _ \<Rightarrow> (data_started, onts))
      else (data_started, onts))"

text \<open>\<open>_parse_zte_state_data\<close>: the dictionary \<open>onts\<close> is updated in place and is returned here.\<close>

definition parse_zte_state_data :: "string \<Rightarrow> onts_dict \<Rightarrow> string \<Rightarrow> string \<Rightarrow> onts_dict" where
  "parse_zte_state_data output onts tarjeta puerto =
     snd (fold (zte_state_line tarjeta puerto) (split_on newline output) (False, onts))"

section \<open>Exceptions and effectful code\<close>

text \<open>
  The exceptions the code raises or meets. \<open>NetmikoException\<close> stands for whatever the
  netmiko library raises (connection refused, authentication failure, read timeout).
\<close>

datatype exn =
    Exception string
  | ValueError string
  | KeyError string
  | IndexError string
  | AttributeError string
  | NetmikoException string

text \<open>\<open>str(e)\<close>; a \<open>KeyError\<close> prints the \<open>repr\<close> of its key.\<close>

fun exn_str :: "exn \<Rightarrow> string" where
  "exn_str (Exception m) = m"
| "exn_str (ValueError m) = m"
| "exn_str (KeyError k) = [CHR 0x27] @ k @ [CHR 0x27]"
| "exn_str (IndexError m) = m"
| "exn_str (AttributeError m) = m"
| "exn_str (NetmikoException m) = m"

text \<open>
  A method that reads and writes a state \<open>'s\<close> and either returns a value or raises:
  \<open>Inl\<close> is the exception, and the state reached is kept in both cases.
\<close>

type_synonym ('a, 's) prog = "'s \<Rightarrow> (exn + 'a) \<times> 's"

definition preturn :: "'a \<Rightarrow> ('a, 's) prog" where
  "preturn x = (\<lambda>s. (Inr x, s))"

definition praise :: "exn \<Rightarrow> ('a, 's) prog" where
  "praise e = (\<lambda>s. (Inl e, s))"

definition pbind :: "('a, 's) prog \<Rightarrow> ('a \<Rightarrow> ('b, 's) prog) \<Rightarrow> ('b, 's) prog" where
  "pbind m f = (\<lambda>s. case m s of (Inl e, s') \<Rightarrow> (Inl e, s') | (Inr x, s') \<Rightarrow> f x s')"

definition pseq :: "('a, 's) prog \<Rightarrow> ('b, 's) prog \<Rightarrow> ('b, 's) prog" where
  "pseq m n = pbind m (\<lambda>_. n)"

text \<open>\<open>try: m except Exception as e: h e\<close>.\<close>

definition ptry :: "('a, 's) prog \<Rightarrow> (exn \<Rightarrow> ('a, 's) prog) \<Rightarrow> ('a, 's) prog" where
  "ptry m h = (\<lambda>s. case m s of (Inl e, s') \<Rightarrow> h e s' | (Inr x, s') \<Rightarrow> (Inr x, s'))"

text \<open>\<open>try: m except: pass\<close>.\<close>

definition pignore :: "('a, 's) prog \<Rightarrow> (unit, 's) prog" where
  "pignore m = (\<lambda>s. case m s of (_, s') \<Rightarrow> (Inr (), s'))"

section \<open>Integers read from text\<close>

definition digit_val :: "char \<Rightarrow> nat" where
  "digit_val c = (case map_of (zip ''0123456789'' [0 ..< 10]) c of Some d \<Rightarrow> d | None \<Rightarrow> 0)"

text \<open>
  The digit strings \<open>int()\<close> accepts: decimal digits, single underscores allowed between
  two digits.
\<close>

fun valid_digits :: "string \<Rightarrow> bool" where
  "valid_digits [] = False"
| "valid_digits [c] = is_digit c"
| "valid_digits (c # d # cs) =
     (is_digit c \<and> (if d = CHR ''_'' then valid_digits cs else valid_digits (d # cs)))"

definition digits_value :: "string \<Rightarrow> nat" where
  "digits_value s = foldl (\<lambda>a c. 10 * a + digit_val c) 0 (filter is_digit s)"

text \<open>\<open>int(s)\<close> in base ten; \<open>None\<close> is the \<open>ValueError\<close>.\<close>

definition py_int :: "string \<Rightarrow> int option" where
  "py_int s =
     (case py_strip s of
        [] \<Rightarrow> None
      | c # cs \<Rightarrow>
          if c = CHR ''-'' then (if valid_digits cs then Some (- int (digits_value cs)) else None)
          else if c = CHR ''+'' then (if valid_digits cs then Some (int (digits_value cs)) else None)
          else if valid_digits (c # cs) then Some (int (digits_value (c # cs)))
          else None)"


section \<open>The next free ONU id (services/ont\_service.py)\<close>

text \<open>
  The body of the loop of \<open>obtener_siguiente_onu_id\<close> over the lines of the running
  configuration: the id a line contributes to \<open>used_ids\<close>, if any.
\<close>

definition onu_line_id :: "string \<Rightarrow> int option" where
  "onu_line_id raw =
     (let line = py_strip raw in
      if startswith line ''onu '' \<and> py_in '' type '' line then
        (case py_split line of
           _ # p1 # _ \<Rightarrow> py_int p1
         | _ \<Rightarrow> None)
      else None)"

definition used_ids_line :: "string \<Rightarrow> int list \<Rightarrow> int list" where
  "used_ids_line raw used =
     (case onu_line_id raw of Some onu_id \<Rightarrow> List.insert onu_id used | None \<Rightarrow> used)"

definition used_ids :: "string \<Rightarrow> int list" where
  "used_ids output = fold used_ids_line (split_on newline output) []"

text \<open>
  What \<open>obtener_siguiente_onu_id\<close> does with the text the device returned:
  \<open>for i in range(1, 129)\<close>, then the \<open>raise\<close>.
\<close>

definition next_onu_id_of_output :: "string \<Rightarrow> exn + int" where
  "next_onu_id_of_output output =
     (case find (\<lambda>i. i \<notin> set (used_ids output)) [1 .. 128] of
        Some i \<Rightarrow> Inr i
      | None \<Rightarrow> Inl (Exception ''Puerto lleno: no hay IDs disponibles''))"

section \<open>Autofind output (services/ont\_service.py)\<close>

definition scenario_C_line :: string where
  "scenario_C_line = ''gpon-onu_1/1/5:2   HWTC00FFF039   unknown''"

text \<open>A table line whose serial has a prefix of the XG-PON vendor table.\<close>

definition xgpon_line :: string where
  "xgpon_line = ''gpon-onu_1/1/5:3   HWTX12345678   unknown''"


text \<open>\<open>_detect_autofind_format\<close>.\<close>

definition detect_autofind_format :: "string \<Rightarrow> string" where
  "detect_autofind_format output =
     (if py_in ''OnuIndex'' output \<and> py_in ''gpon-onu_'' output then ''table''
      else if py_in ''Number:'' output \<and> py_in ''F/S/P:'' output then ''blocks''
      else ''unknown'')"

text \<open>One iteration of the loop of \<open>_parse_table_format\<close>.\<close>

definition table_format_line ::
  "string \<Rightarrow> bool \<times> (string \<times> string) list list \<Rightarrow> bool \<times> (string \<times> string) list list" where
  "table_format_line raw st =
     (let line = py_strip raw; data_started = fst st; onts = snd st in
      if line = [] then (data_started, onts)
      else if py_in ''---'' line then (True, onts)
      else if py_in ''OnuIndex'' line \<or> py_in ''Sn'' line \<or> py_in ''State'' line
        then (data_started, onts)
      else if data_started \<and> py_in ''gpon-onu_'' line then
        (case parse_table_line line of
           Some ont_data \<Rightarrow> (data_started, onts @ [ont_data])
         | None \<Rightarrow> (data_started, onts))
      else (data_started, onts))"

definition parse_table_format :: "string \<Rightarrow> (string \<times> string) list list" where
  "parse_table_format output = snd (fold table_format_line (split_on newline output) (False, []))"

text \<open>
  The third separator of \<open>_parse_blocks_format\<close> is fifty box-drawing characters
  (U+2550), written here as their UTF-8 bytes; ASCII device text never contains it.
\<close>

definition separator_patterns :: "string list" where
  "separator_patterns =
     [replicate 76 CHR ''-'', replicate 69 CHR ''-'',
      concat (replicate 50 [CHR 0xE2, CHR 0x95, CHR 0x90])]"

text \<open>
  \<open>_parse_blocks_format\<close> calls \<open>self._split_by_ont_blocks\<close> and
  \<open>self._parse_autofind_block\<close>. The class \<open>ONTService\<close> defines neither (it has no
  base class and no \<open>__getattr__\<close>), so each call raises \<open>AttributeError\<close>.
\<close>

definition no_split_by_ont_blocks :: exn where
  "no_split_by_ont_blocks =
     AttributeError ([CHR 0x27] @ ''ONTService'' @ [CHR 0x27] @ '' object has no attribute '' @
                     [CHR 0x27] @ ''_split_by_ont_blocks'' @ [CHR 0x27])"

definition no_parse_autofind_block :: exn where
  "no_parse_autofind_block =
     AttributeError ([CHR 0x27] @ ''ONTService'' @ [CHR 0x27] @ '' object has no attribute '' @
                     [CHR 0x27] @ ''_parse_autofind_block'' @ [CHR 0x27])"

fun blocks_loop :: "string list \<Rightarrow> (string \<times> string) list list \<Rightarrow> exn + (string \<times> string) list list" where
  "blocks_loop [] autofind_onts = Inr autofind_onts"
| "blocks_loop (block # blocks) autofind_onts =
     (if py_strip block = [] then blocks_loop blocks autofind_onts
      else Inl no_parse_autofind_block)"

definition parse_blocks_format :: "string \<Rightarrow> exn + (string \<times> string) list list" where
  "parse_blocks_format output =
     (let blocks = (case find (\<lambda>separator. py_in separator output) separator_patterns of
                      Some separator \<Rightarrow> split_on separator output
                    | None \<Rightarrow> [output]) in
      if length blocks = 1 then Inl no_split_by_ont_blocks
      else blocks_loop blocks [])"

text \<open>\<open>_parse_autofind_data\<close>.\<close>

definition parse_autofind_data :: "string \<Rightarrow> exn + (string \<times> string) list list" where
  "parse_autofind_data output_autofind =
     (if output_autofind = [] \<or> length (py_strip output_autofind) < 10 then Inr []
      else let format_type = detect_autofind_format output_autofind in
        if format_type = ''table'' then Inr (parse_table_format output_autofind)
        else if format_type = ''blocks'' then parse_blocks_format output_autofind
        else Inr [])"

definition blocks_payload :: string where
  "blocks_payload =
     ''Number: 1'' @ newline @ ''F/S/P: 0/1/2'' @ newline @ ''Ont SN: 48575443CA7A1234''"

section \<open>Scenario lines of the ZTE state table\<close>

definition scenario_A_line :: string where
  "scenario_A_line = ''gpon-onu_1/2/3:1  enable  enable  operation  working''"

text \<open>The first token of a stripped line, which the state parser takes as the ONU index.\<close>

definition line_onu_index :: "string \<Rightarrow> string option" where
  "line_onu_index raw = (case py_split (py_strip raw) of w # _ \<Rightarrow> Some w | [] \<Rightarrow> None)"

definition scenario_A_payload :: string where
  "scenario_A_payload =
     ''OnuIndex   Admin State  OMCC State  O7 State   Phase State'' @ newline @
     ''-----------------------------------------------------------'' @ newline @
     scenario_A_line @ newline @
     ''gpon-onu_1/2/3:2  enable  disable  unknown  LOS''"

section \<open>Configured ids of a running configuration\<close>

text \<open>The ids that the lines of the text contribute to \<open>used_ids\<close>.\<close>

definition configured_ids :: "string \<Rightarrow> int set" where
  "configured_ids output = {i. \<exists>raw \<in> set (split_on newline output). onu_line_id raw = Some i}"

definition port_full :: exn where
  "port_full = Exception ''Puerto lleno: no hay IDs disponibles''"

definition running_config :: string where
  "running_config =
     ''interface gpon-olt_1/2/3'' @ newline @
     ''  onu 1 type V-SOL-V2801D-1GT1 sn HWTC0037DCC7'' @ newline @
     ''  onu 2 type ZTE-F660 sn ZTEG12345678'' @ newline @
     ''  onu 4 type ZTE-F660 sn ZTEG12345679'' @ newline @
     ''!''"

section \<open>The remote-shell channel (the netmiko primitive)\<close>

text \<open>
  The channel is supplied from outside the code. Its model: the channel may be closed;
  an open channel answers each read with the next entry of \<open>script\<close>, either text or an
  exception of the library; \<open>sent\<close> and \<open>received\<close> record the traffic.
\<close>

datatype reply = Text string | Fails string

record channel =
  closed :: bool
  script :: "reply list"
  sent :: "string list"
  received :: "string list"

text \<open>\<open>conn.write_channel(text)\<close>.\<close>

definition write_channel :: "string \<Rightarrow> channel \<Rightarrow> (exn + unit) \<times> channel" where
  "write_channel t ch =
     (if closed ch then (Inl (NetmikoException ''channel closed''), ch)
      else (Inr (), ch\<lparr>sent := sent ch @ [t]\<rparr>))"

text \<open>\<open>conn.read_channel()\<close>: the text that is available, the empty string when there is none.\<close>

definition read_channel :: "channel \<Rightarrow> (exn + string) \<times> channel" where
  "read_channel ch =
     (if closed ch then (Inl (NetmikoException ''channel closed''), ch)
      else case script ch of
             [] \<Rightarrow> (Inr [], ch\<lparr>received := received ch @ [[]]\<rparr>)
           | Text t # rest \<Rightarrow> (Inr t, ch\<lparr>script := rest, received := received ch @ [t]\<rparr>)
           | Fails m # rest \<Rightarrow> (Inl (NetmikoException m), ch\<lparr>script := rest\<rparr>))"

text \<open>
  \<open>conn.send_command(command, expect_string="#", ...)\<close>: the command is written and the
  reply is read up to the prompt; the library raises when the prompt never comes.
\<close>

definition send_command :: "string \<Rightarrow> channel \<Rightarrow> (exn + string) \<times> channel" where
  "send_command command ch =
     (if closed ch then (Inl (NetmikoException ''channel closed''), ch)
      else let ch1 = ch\<lparr>sent := sent ch @ [command]\<rparr> in
        case script ch1 of
          [] \<Rightarrow> (Inl (NetmikoException ''pattern not detected''), ch1)
        | Text t # rest \<Rightarrow> (Inr t, ch1\<lparr>script := rest, received := received ch1 @ [t]\<rparr>)
        | Fails m # rest \<Rightarrow> (Inl (NetmikoException m), ch1\<lparr>script := rest\<rparr>))"

text \<open>
  \<open>ConnectHandler(**connection_config)\<close>: the outcome of the \<open>n\<close>-th connection attempt
  made on the network, given the configuration it is made with.
\<close>

record device_config =
  timeout :: "int option"
  auth_timeout :: "int option"

datatype connect_outcome = Refused string | Accepted channel

type_synonym network = "nat \<Rightarrow> device_config \<Rightarrow> connect_outcome"

section \<open>The connection pool (services/connection\_pool.py)\<close>

record session_data =
  connection :: "channel option"
  last_used :: nat
  current_context :: string
  created_at :: nat
  connection_attempts :: nat
  last_error :: "string option"

text \<open>
  The pool object. \<open>clock\<close> is what \<open>time.time()\<close> returns and \<open>net_attempts\<close> counts
  the calls of \<open>ConnectHandler\<close> made so far. The registry lock is not modelled: the
  methods below run one at a time.
\<close>

record pool =
  pool_config :: device_config
  max_idle_time :: nat
  connections :: "(string \<times> session_data) list"
  clock :: nat
  net_attempts :: nat

text \<open>The decimal text of a number, as an f-string prints it.\<close>

fun nat_str :: "nat \<Rightarrow> string" where
  "nat_str n = (if n < 10 then [''0123456789'' ! n]
                else nat_str (n div 10) @ [''0123456789'' ! (n mod 10)])"

text \<open>\<open>ConnectionPool.get_connection\<close>; the wrapper it returns is the session id.\<close>

definition get_connection :: "string \<Rightarrow> pool \<Rightarrow> pool" where
  "get_connection session_id p =
     (case map_of (connections p) session_id of
        None \<Rightarrow>
          p\<lparr>connections := dict_set (connections p) session_id
               \<lparr>connection = None, last_used = clock p, current_context = ''global'',
                created_at = clock p, connection_attempts = 0, last_error = None\<rparr>\<rparr>
      | Some sd \<Rightarrow>
          p\<lparr>connections := dict_set (connections p) session_id (sd\<lparr>last_used := clock p\<rparr>)\<rparr>)"

text \<open>\<open>_is_connection_alive\<close>; \<open>remote_conn\<close> is falsy when the channel is closed.\<close>

definition is_connection_alive :: "channel \<Rightarrow> bool \<times> channel" where
  "is_connection_alive ch =
     (if \<not> closed ch then
        (case write_channel newline ch of
           (Inl e, ch1) \<Rightarrow> (False, ch1)
         | (Inr _, ch1) \<Rightarrow>
             (case read_channel ch1 of
                (Inl e, ch2) \<Rightarrow> (False, ch2)
              | (Inr output, ch2) \<Rightarrow> (True, ch2)))
      else (False, ch))"

text \<open>\<open>_initialize_connection\<close>.\<close>

definition initialize_connection :: "channel \<Rightarrow> (exn + unit) \<times> channel" where
  "initialize_connection ch =
     (case write_channel (''configure terminal'' @ newline) ch of
        (Inl e, ch1) \<Rightarrow> (Inl e, ch1)
      | (Inr _, ch1) \<Rightarrow>
          (case read_channel ch1 of
             (Inl e, ch2) \<Rightarrow> (Inl e, ch2)
           | (Inr output, ch2) \<Rightarrow>
               (case write_channel (''screen-length 0 temporary'' @ newline) ch2 of
                  (Inl e, ch3) \<Rightarrow> (Inl e, ch3)
                | (Inr _, ch3) \<Rightarrow>
                    (case read_channel ch3 of
                       (Inl e, ch4) \<Rightarrow> (Inl e, ch4)
                     | (Inr _, ch4) \<Rightarrow> (Inr (), ch4)))))"

text \<open>The configuration of an attempt: the timeouts grow, capped, from the second attempt on.\<close>

definition connection_config :: "device_config \<Rightarrow> nat \<Rightarrow> device_config" where
  "connection_config cfg attempts =
     (if attempts > 1 then
        cfg\<lparr>timeout := Some (min ((case timeout cfg of Some t \<Rightarrow> t | None \<Rightarrow> 30) + 10) 60),
            auth_timeout := Some (min ((case auth_timeout cfg of Some t \<Rightarrow> t | None \<Rightarrow> 10) + 5) 30)\<rparr>
      else cfg)"

text \<open>The \<open>except\<close> block of \<open>_get_ssh_connection\<close>, on the session record as it is then.\<close>

definition connect_failed :: "string \<Rightarrow> exn \<Rightarrow> session_data \<Rightarrow> pool \<Rightarrow> (exn + unit) \<times> pool" where
  "connect_failed session_id e sd p =
     (let sd' = sd\<lparr>last_error := Some (exn_str e)\<rparr>;
          p' = p\<lparr>connections := dict_set (connections p) session_id sd'\<rparr> in
      if connection_attempts sd' \<ge> 3 then
        (Inl (Exception (''No se pudo establecer conexi'' @ [CHR 0xC3, CHR 0xB3] @ ''n despu'' @
                         [CHR 0xC3, CHR 0xA9] @ ''s de '' @ nat_str (connection_attempts sd') @
                         '' intentos: '' @ exn_str e)), p')
      else (Inl e, p'))"

text \<open>
  \<open>_get_ssh_connection\<close>. The connection it returns is the one stored in the session
  record, so the model returns nothing and the callers use the stored channel.
\<close>

definition get_ssh_connection :: "network \<Rightarrow> string \<Rightarrow> (unit, pool) prog" where
  "get_ssh_connection net session_id p =
     (case map_of (connections p) session_id of
        None \<Rightarrow> (Inl (KeyError session_id), p)
      | Some sd \<Rightarrow>
          (let (dead, sd1) =
                 (case connection sd of
                    None \<Rightarrow> (True, sd)
                  | Some ch \<Rightarrow>
                      (let (alive, ch') = is_connection_alive ch
                       in (\<not> alive, sd\<lparr>connection := Some ch'\<rparr>)))
           in
           if dead then
             (let sd2 = sd1\<lparr>connection_attempts := connection_attempts sd1 + 1\<rparr>;
                  cfg = connection_config (pool_config p) (connection_attempts sd2);
                  p1 = p\<lparr>net_attempts := net_attempts p + 1\<rparr>
              in case net (net_attempts p) cfg of
                   Refused m \<Rightarrow> connect_failed session_id (NetmikoException m) sd2 p1
                 | Accepted ch \<Rightarrow>
                     (case initialize_connection ch of
                        (Inl e, ch') \<Rightarrow>
                          connect_failed session_id e (sd2\<lparr>connection := Some ch'\<rparr>) p1
                      | (Inr _, ch') \<Rightarrow>
                          (Inr (),
                           p1\<lparr>connections := dict_set (connections p1) session_id
                                 (sd2\<lparr>connection := Some ch', current_context := ''config'',
                                      last_error := None\<rparr>)\<rparr>)))
           else (Inr (), p\<lparr>connections := dict_set (connections p) session_id sd1\<rparr>)))"

definition get_session_context :: "string \<Rightarrow> pool \<Rightarrow> string" where
  "get_session_context session_id p =
     (case map_of (connections p) session_id of
        Some sd \<Rightarrow> current_context sd
      | None \<Rightarrow> ''global'')"

definition set_session_context :: "string \<Rightarrow> string \<Rightarrow> (unit, pool) prog" where
  "set_session_context session_id context p =
     (case map_of (connections p) session_id of
        Some sd \<Rightarrow>
          (Inr (), p\<lparr>connections := dict_set (connections p) session_id
                          (sd\<lparr>current_context := context\<rparr>)\<rparr>)
      | None \<Rightarrow> (Inr (), p))"

section \<open>The session wrapper (class SessionConnection)\<close>

text \<open>An operation on the channel that \<open>connect()\<close> returned: the one stored for the session.\<close>

definition on_channel :: "string \<Rightarrow> (channel \<Rightarrow> (exn + 'a) \<times> channel) \<Rightarrow> ('a, pool) prog" where
  "on_channel session_id f p =
     (case map_of (connections p) session_id of
        None \<Rightarrow> (Inl (KeyError session_id), p)
      | Some sd \<Rightarrow>
          (case connection sd of
             None \<Rightarrow> (Inl (AttributeError ''NoneType''), p)
           | Some ch \<Rightarrow>
               (let (r, ch') = f ch
                in (r, p\<lparr>connections := dict_set (connections p) session_id
                               (sd\<lparr>connection := Some ch'\<rparr>)\<rparr>))))"

text \<open>The update of \<open>last_used\<close> after a command.\<close>

definition touch :: "string \<Rightarrow> (unit, pool) prog" where
  "touch session_id p =
     (case map_of (connections p) session_id of
        Some sd \<Rightarrow>
          (Inr (), p\<lparr>connections := dict_set (connections p) session_id
                          (sd\<lparr>last_used := clock p\<rparr>)\<rparr>)
      | None \<Rightarrow> (Inr (), p))"

text \<open>\<open>SessionConnection.execute_command\<close>; its \<open>except\<close> block logs and raises again.\<close>

definition execute_command :: "network \<Rightarrow> string \<Rightarrow> string \<Rightarrow> (string, pool) prog" where
  "execute_command net session_id command =
     pbind (get_ssh_connection net session_id) (\<lambda>_.
     pbind (on_channel session_id (send_command command)) (\<lambda>result.
     pbind (touch session_id) (\<lambda>_.
     preturn result)))"

text \<open>\<open>SessionConnection.enter_interface\<close>.\<close>

definition enter_interface :: "network \<Rightarrow> string \<Rightarrow> string \<Rightarrow> (unit, pool) prog" where
  "enter_interface net session_id tarjeta =
     pbind (get_ssh_connection net session_id) (\<lambda>_.
     (let interface_name = ''gpon-0/'' @ tarjeta;
          target_context = ''interface-'' @ interface_name in
      (\<lambda>p. if get_session_context session_id p = target_context then preturn () p
            else
              pbind (\<lambda>p. if startswith (get_session_context session_id p) ''interface'' then
                            pbind (on_channel session_id (write_channel (''quit'' @ newline))) (\<lambda>_.
                            pbind (on_channel session_id read_channel) (\<lambda>_.
                            set_session_context session_id ''config'')) p
                          else preturn () p) (\<lambda>_.
              pbind (on_channel session_id
                       (write_channel (''interface gpon 0/'' @ tarjeta @ newline))) (\<lambda>_.
              pbind (on_channel session_id read_channel) (\<lambda>output.
              if py_in ''#'' output then set_session_context session_id target_context
              else praise (Exception (''No se pudo entrar a la interfaz gpon 0/'' @ tarjeta))))) p)))"

text \<open>\<open>SessionConnection.exit_interface\<close>.\<close>

definition exit_interface :: "network \<Rightarrow> string \<Rightarrow> (unit, pool) prog" where
  "exit_interface net session_id =
     (\<lambda>p. if startswith (get_session_context session_id p) ''interface'' then
             pbind (get_ssh_connection net session_id) (\<lambda>_.
             pbind (on_channel session_id (write_channel (''quit'' @ newline))) (\<lambda>_.
             pbind (on_channel session_id read_channel) (\<lambda>output.
             if py_in '')'' output \<and> py_in ''#'' output then set_session_context session_id ''config''
             else preturn ()))) p
           else preturn () p)"

text \<open>\<open>SessionConnection.ensure_config_mode\<close>.\<close>

definition ensure_config_mode :: "network \<Rightarrow> string \<Rightarrow> (unit, pool) prog" where
  "ensure_config_mode net session_id =
     (\<lambda>p. if startswith (get_session_context session_id p) ''interface'' then
             exit_interface net session_id p
           else preturn () p)"

text \<open>The last text read from the channel of a session.\<close>

definition last_received :: "string \<Rightarrow> pool \<Rightarrow> string option" where
  "last_received session_id p =
     (case map_of (connections p) session_id of
        None \<Rightarrow> None
      | Some sd \<Rightarrow>
          (case connection sd of
             None \<Rightarrow> None
           | Some ch \<Rightarrow> (if received ch = [] then None else Some (last (received ch)))))"

text \<open>A pool as the constructor leaves it, and the state of a session in a pool.\<close>

definition new_pool :: "device_config \<Rightarrow> nat \<Rightarrow> pool" where
  "new_pool cfg idle = \<lparr>pool_config = cfg, max_idle_time = idle, connections = [], clock = 0,
                        net_attempts = 0\<rparr>"

definition session_attempts :: "string \<Rightarrow> pool \<Rightarrow> nat option" where
  "session_attempts session_id p = map_option connection_attempts (map_of (connections p) session_id)"

definition session_last_error :: "string \<Rightarrow> pool \<Rightarrow> string option" where
  "session_last_error session_id p =
     (case map_of (connections p) session_id of None \<Rightarrow> None | Some sd \<Rightarrow> last_error sd)"

section \<open>Concrete networks and pools\<close>

definition cfg0 :: device_config where
  "cfg0 = \<lparr>timeout = Some 45, auth_timeout = Some 15\<rparr>"

definition down_net :: network where
  "down_net n cfg = Refused (''timed out #'' @ nat_str n)"

definition failed_command :: "string \<Rightarrow> pool \<Rightarrow> pool" where
  "failed_command session_id p =
     snd (execute_command down_net session_id ''show version'' (get_connection session_id p))"

definition pool_after_three_failures :: pool where
  "pool_after_three_failures =
     failed_command ''u1'' (failed_command ''u1'' (failed_command ''u1'' (new_pool cfg0 300)))"

definition fourth_attempt_error :: exn where
  "fourth_attempt_error =
     Exception (''No se pudo establecer conexi'' @ [CHR 0xC3, CHR 0xB3] @ ''n despu'' @
                [CHR 0xC3, CHR 0xA9] @ ''s de 4 intentos: timed out #3'')"

definition open_channel :: "reply list \<Rightarrow> channel" where
  "open_channel rs = \<lparr>closed = False, script = rs, sent = [], received = []\<rparr>"

definition silent_quit_net :: network where
  "silent_quit_net n cfg =
     Accepted (open_channel [Text ''ZXAN(config)#'', Text [], Text ''ZXAN(config-if)#''])"

definition prompt_quit_net :: network where
  "prompt_quit_net n cfg =
     Accepted (open_channel [Text ''ZXAN(config)#'', Text [], Text ''ZXAN(config-if)#'',
                             Text [], Text ''ZXAN(config)#''])"

definition fresh_session_pool :: pool where
  "fresh_session_pool = get_connection ''u1'' (new_pool cfg0 300)"

text \<open>
  A network whose first channel fails at the read of the liveness probe that follows
  \<open>enter_interface\<close>, and whose second channel answers \<open>quit\<close> without a prompt.
\<close>

definition dying_net :: network where
  "dying_net n cfg =
     (if n = 0 then
        Accepted (open_channel [Text ''ZXAN(config)#'', Text [], Text ''ZXAN(config-if)#'',
                                Fails ''socket closed''])
      else Accepted (open_channel [Text ''ZXAN(config)#'', Text [], Text ''no prompt'']))"

section \<open>The service and the session it is given (class ONTService)\<close>

text \<open>
  \<open>ONTService\<close> receives its session object in the constructor and only calls its
  methods, so the service is modelled over any object with these methods, on any state.
  The waits (\<open>time.sleep\<close>) and the \<open>delay_factor\<close> and \<open>timeout\<close> arguments of the
  commands are real-time matters and have no counterpart here.
\<close>

record 's session_connection =
  sc_execute_command :: "string \<Rightarrow> (string, 's) prog"
  sc_enter_interface :: "string \<Rightarrow> (unit, 's) prog"
  sc_exit_interface :: "(unit, 's) prog"

text \<open>The session object that the pool hands out.\<close>

definition pool_session :: "network \<Rightarrow> string \<Rightarrow> pool session_connection" where
  "pool_session net session_id =
     \<lparr>sc_execute_command = execute_command net session_id,
      sc_enter_interface = enter_interface net session_id,
      sc_exit_interface = exit_interface net session_id\<rparr>"

subsection \<open>Parameter validation\<close>

text \<open>
  \<open>re.match\<close> with a pattern that ends in \<open>$\<close>: the end of the pattern matches at the
  end of the string and also just before a newline that ends the string.
\<close>

definition at_dollar :: "string \<Rightarrow> bool" where
  "at_dollar rest \<longleftrightarrow> rest = [] \<or> rest = newline"

text \<open>\<open>re.match(r'^(1[0-7]|[1-9])$', tarjeta)\<close>.\<close>

definition match_tarjeta :: "string \<Rightarrow> bool" where
  "match_tarjeta s =
     (case s of
        [] \<Rightarrow> False
      | c # rest \<Rightarrow>
          (c = CHR ''1'' \<and> (case rest of [] \<Rightarrow> False
                                       | d # rest' \<Rightarrow> d \<in> set ''01234567'' \<and> at_dollar rest'))
          \<or> (c \<in> set ''123456789'' \<and> at_dollar rest))"

text \<open>\<open>re.match(r'^(1[0-6]|[0-9])$', puerto)\<close>.\<close>

definition match_puerto :: "string \<Rightarrow> bool" where
  "match_puerto s =
     (case s of
        [] \<Rightarrow> False
      | c # rest \<Rightarrow>
          (c = CHR ''1'' \<and> (case rest of [] \<Rightarrow> False
                                       | d # rest' \<Rightarrow> d \<in> set ''0123456'' \<and> at_dollar rest'))
          \<or> (c \<in> set ''0123456789'' \<and> at_dollar rest))"

text \<open>\<open>_validate_parameters\<close>.\<close>

definition validate_parameters :: "string \<Rightarrow> string \<Rightarrow> bool" where
  "validate_parameters tarjeta puerto =
     (if \<not> match_tarjeta tarjeta then False
      else if \<not> match_puerto puerto then False
      else True)"

subsection \<open>Safe numeric parses\<close>

text \<open>
  The class defines \<open>_safe_float_parse\<close> three times and \<open>_safe_int_parse\<close> twice; the
  last definition of each is the method. \<open>float_ok\<close> says which texts \<open>float()\<close> accepts.
\<close>

definition safe_float_parse :: "(string \<Rightarrow> bool) \<Rightarrow> string \<Rightarrow> pyval" where
  "safe_float_parse float_ok v =
     (let t = py_strip (py_replace ''(dbm)'' [] v) in if float_ok t then PFloat t else PNone)"


subsection \<open>Records of a dictionary of ONTs\<close>

text \<open>\<open>r.update({...})\<close> on one record.\<close>

definition record_update :: "ont_record \<Rightarrow> (string \<times> pyval) list \<Rightarrow> ont_record" where
  "record_update r kvs = fold (\<lambda>kv r'. dict_set r' (fst kv) (snd kv)) kvs r"

text \<open>\<open>if ont_id in onts: onts[ont_id].update({...})\<close>.\<close>

definition onts_update :: "onts_dict \<Rightarrow> string \<Rightarrow> (string \<times> pyval) list \<Rightarrow> onts_dict" where
  "onts_update onts ont_id kvs =
     (case map_of onts ont_id of
        Some r \<Rightarrow> dict_set onts ont_id (record_update r kvs)
      | None \<Rightarrow> onts)"


text \<open>The text of a value inside an f-string.\<close>

fun pystr :: "pyval \<Rightarrow> string" where
  "pystr PNone = ''None''"
| "pystr (PStr s) = s"
| "pystr (PFloat t) = t"
| "pystr (PInt i) = (if i < 0 then ''-'' @ nat_str (nat (- i)) else nat_str (nat i))"


subsection \<open>The ZTE optical-power reply\<close>

text \<open>
  The inner loop of \<open>_parse_zte_power_data\<close> over the words of an \<open>up\<close> or \<open>down\<close>
  line: the text of the first \<open>Rx\<close> value, \<open>None\<close> when no word starts one; the
  \<open>IndexError\<close> is that of \<open>part.split(':')[1]\<close>.
\<close>

fun find_rx :: "string list \<Rightarrow> (exn + string) option" where
  "find_rx [] = None"
| "find_rx (part # rest) =
     (if startswith part ''Rx:'' \<or> part = ''Rx'' then
        Some (if part = ''Rx'' \<and> rest \<noteq> [] then
                Inr (py_strip (py_replace ''(dbm)'' [] (py_replace '':'' [] (hd rest))))
              else (case split_on '':'' part of
                      _ # x # _ \<Rightarrow> Inr (py_strip (py_replace ''(dbm)'' [] x))
                    | _ \<Rightarrow> Inl (IndexError ''list index out of range'')))
      else find_rx rest)"

text \<open>One line of the reply, on the pair \<open>(ont_rx, olt_rx)\<close>.\<close>

definition power_line :: "(string \<Rightarrow> bool) \<Rightarrow> string \<Rightarrow> pyval \<times> pyval \<Rightarrow> exn + pyval \<times> pyval" where
  "power_line float_ok raw rx =
     (let line = py_strip raw in
      if startswith line ''up'' then
        (case find_rx (py_split line) of
           None \<Rightarrow> Inr rx
         | Some (Inl e) \<Rightarrow> Inl e
         | Some (Inr t) \<Rightarrow> Inr (fst rx, safe_float_parse float_ok t))
      else if startswith line ''down'' then
        (case find_rx (py_split line) of
           None \<Rightarrow> Inr rx
         | Some (Inl e) \<Rightarrow> Inl e
         | Some (Inr t) \<Rightarrow> Inr (safe_float_parse float_ok t, snd rx))
      else Inr rx)"

fun power_lines :: "(string \<Rightarrow> bool) \<Rightarrow> string list \<Rightarrow> pyval \<times> pyval \<Rightarrow> exn + pyval \<times> pyval" where
  "power_lines float_ok [] rx = Inr rx"
| "power_lines float_ok (l # ls) rx =
     (case power_line float_ok l rx of
        Inl e \<Rightarrow> Inl e
      | Inr rx' \<Rightarrow> power_lines float_ok ls rx')"

text \<open>\<open>_parse_zte_power_data\<close>.\<close>

definition parse_zte_power_data ::
  "(string \<Rightarrow> bool) \<Rightarrow> string \<Rightarrow> onts_dict \<Rightarrow> string \<Rightarrow> exn + onts_dict" where
  "parse_zte_power_data float_ok output onts ont_id =
     (case power_lines float_ok (split_on newline output) (PNone, PNone) of
        Inl e \<Rightarrow> Inl e
      | Inr rx \<Rightarrow> Inr (onts_update onts ont_id [(''ont_rx'', fst rx), (''olt_rx'', snd rx)]))"

subsection \<open>The ZTE records query\<close>

text \<open>The loop of \<open>_obtener_onts_zte\<close> over the ids found, with its \<open>except\<close> block.\<close>

fun power_loop ::
  "'s session_connection \<Rightarrow> (string \<Rightarrow> bool) \<Rightarrow> string \<Rightarrow> string \<Rightarrow> string list \<Rightarrow>
   onts_dict \<Rightarrow> 's \<Rightarrow> onts_dict \<times> 's" where
  "power_loop sc float_ok tarjeta puerto [] onts s = (onts, s)"
| "power_loop sc float_ok tarjeta puerto (ont_id # ids) onts s =
     (let nulls = [(''ont_rx'', PNone), (''olt_rx'', PNone), (''temperature'', PNone),
                   (''distance'', PNone)] in
      case sc_execute_command sc
             (''show pon power attenuation gpon-onu_1/'' @ tarjeta @ ''/'' @ puerto @ '':'' @ ont_id) s of
        (Inl e, s1) \<Rightarrow>
          power_loop sc float_ok tarjeta puerto ids (onts_update onts ont_id nulls) s1
      | (Inr output_power, s1) \<Rightarrow>
          (case parse_zte_power_data float_ok output_power onts ont_id of
             Inl e \<Rightarrow> power_loop sc float_ok tarjeta puerto ids (onts_update onts ont_id nulls) s1
           | Inr onts' \<Rightarrow> power_loop sc float_ok tarjeta puerto ids onts' s1))"

text \<open>
  The loop of \<open>_enriquecer_con_descripciones_zte\<close> over the lines of a detail reply: the
  description to store, \<open>None\<close> when no line has one.
\<close>

fun find_descripcion :: "string list \<Rightarrow> string option" where
  "find_descripcion [] = None"
| "find_descripcion (line # ls) =
     (if py_in ''Name:'' line then
        (case split_on ''Name:'' line of
           _ # x # _ \<Rightarrow> Some (py_strip x)
         | _ \<Rightarrow> None)
      else if py_in ''Description:'' line then
        (case split_on ''Description:'' line of
           _ # x # _ \<Rightarrow>
             (let descripcion = py_strip x in
              Some (if length descripcion > 100 then take 97 descripcion @ ''...'' else descripcion))
         | _ \<Rightarrow> None)
      else find_descripcion ls)"

text \<open>
  \<open>_enriquecer_con_descripciones_zte\<close> receives \<open>list(onts_data.values())\<close>: the records
  of the list are the records of the dictionary, so what it assigns is assigned in the
  dictionary, and the loop of \<open>_obtener_onts_zte\<close> that copies each \<open>descripcion\<close> back
  assigns a value to itself. A record without \<open>id\<close> ends the enrichment (the
  \<open>KeyError\<close> leaves through the inner \<open>except\<close> block and is caught outside).
\<close>

fun enrich_loop ::
  "'s session_connection \<Rightarrow> string \<Rightarrow> string \<Rightarrow> string list \<Rightarrow> onts_dict \<Rightarrow> 's \<Rightarrow> onts_dict \<times> 's" where
  "enrich_loop sc tarjeta puerto [] onts s = (onts, s)"
| "enrich_loop sc tarjeta puerto (k # ks) onts s =
     (case map_of onts k of
        None \<Rightarrow> enrich_loop sc tarjeta puerto ks onts s
      | Some ont \<Rightarrow>
          (case map_of ont ''id'' of
             None \<Rightarrow> (onts, s)
           | Some ident \<Rightarrow>
               (case sc_execute_command sc
                       (''show gpon onu detail-info gpon-onu_1/'' @ tarjeta @ ''/'' @ puerto @ '':'' @
                        pystr ident) s of
                  (Inl e, s1) \<Rightarrow>
                    enrich_loop sc tarjeta puerto ks
                      (onts_update onts k [(''descripcion'', PStr (''ONT-'' @ pystr ident))]) s1
                | (Inr output, s1) \<Rightarrow>
                    (case find_descripcion (split_on newline output) of
                       None \<Rightarrow> enrich_loop sc tarjeta puerto ks onts s1
                     | Some descripcion \<Rightarrow>
                         enrich_loop sc tarjeta puerto ks
                           (onts_update onts k [(''descripcion'', PStr descripcion)]) s1))))"

text \<open>
  \<open>_obtener_onts_zte\<close>: it returns the dictionary in every case, the empty one when the
  state command raises.
\<close>

definition obtener_onts_zte ::
  "'s session_connection \<Rightarrow> (string \<Rightarrow> bool) \<Rightarrow> string \<Rightarrow> string \<Rightarrow> 's \<Rightarrow> onts_dict \<times> 's" where
  "obtener_onts_zte sc float_ok tarjeta puerto s =
     (case sc_execute_command sc (''show gpon onu state gpon-olt_1/'' @ tarjeta @ ''/'' @ puerto) s of
        (Inl e, s1) \<Rightarrow> ([], s1)
      | (Inr output_state, s1) \<Rightarrow>
          (let onts0 = parse_zte_state_data output_state [] tarjeta puerto;
               (onts1, s2) = power_loop sc float_ok tarjeta puerto (map fst onts0) onts0 s1
           in enrich_loop sc tarjeta puerto (map fst onts1) onts1 s2))"

text \<open>
  \<open>obtener_onts\<close>. The class \<open>ONT\<close> of \<open>models/ont_model.py\<close> is a parameter: the
  constructor applied to a record, \<open>None\<close> when it raises; the collection is the list of
  the objects built.
\<close>

definition invalid_parameters :: "string \<Rightarrow> string \<Rightarrow> exn" where
  "invalid_parameters tarjeta puerto =
     ValueError (''Par'' @ [CHR 0xC3, CHR 0xA1] @ ''metros inv'' @ [CHR 0xC3, CHR 0xA1] @
                 ''lidos: tarjeta='' @ tarjeta @ '', puerto='' @ puerto)"

definition obtener_onts ::
  "'s session_connection \<Rightarrow> (string \<Rightarrow> bool) \<Rightarrow> (ont_record \<Rightarrow> 'o option) \<Rightarrow> string \<Rightarrow> string \<Rightarrow>
   ('o list, 's) prog" where
  "obtener_onts sc float_ok ONT tarjeta puerto =
     ptry
       (if \<not> validate_parameters tarjeta puerto then praise (invalid_parameters tarjeta puerto)
        else (\<lambda>s. let (onts_data, s1) = obtener_onts_zte sc float_ok tarjeta puerto s
                  in (Inr (List.map_filter ONT (map snd onts_data)), s1)))
       (\<lambda>e. pseq (pignore (sc_exit_interface sc)) (praise e))"

subsection \<open>The Huawei summary and optical replies\<close>













section \<open>Workflows: delete and authorize (services/ont\_service.py)\<close>

record delete_result =
  dr_status :: string
  dr_message :: string
  dr_ont_id :: string
  dr_commands_executed :: "string list"

definition missing_parameters :: exn where
  "missing_parameters =
     ValueError (''Faltan par'' @ [CHR 0xC3, CHR 0xA1] @ ''metros obligatorios'')"

text \<open>\<open>eliminar_ont\<close>; the outer \<open>except\<close> block logs and raises again.\<close>

definition eliminar_ont ::
  "'s session_connection \<Rightarrow> string \<Rightarrow> string \<Rightarrow> string \<Rightarrow> (delete_result, 's) prog" where
  "eliminar_ont sc board port ont_id =
     (if \<not> (board \<noteq> [] \<and> port \<noteq> [] \<and> ont_id \<noteq> []) then praise missing_parameters
      else
        ptry
          (pbind (sc_execute_command sc ''configure terminal'') (\<lambda>_.
           let commands_executed = [''configure terminal''];
               cmd1 = ''interface gpon-olt_1/'' @ board @ ''/'' @ port in
           pbind (sc_execute_command sc cmd1) (\<lambda>_.
           let commands_executed = commands_executed @ [cmd1];
               cmd2 = ''no onu '' @ ont_id in
           pbind (sc_execute_command sc cmd2) (\<lambda>output.
           let commands_executed = commands_executed @ [cmd2] in
           if py_in ''error'' (py_lower output) \<or> py_in ''invalid'' (py_lower output) then
             praise (Exception (''Error al eliminar ONT: '' @ output))
           else
             pbind (sc_execute_command sc ''exit'') (\<lambda>_.
             pbind (sc_execute_command sc ''exit'') (\<lambda>_.
             pbind (sc_execute_command sc ''write'') (\<lambda>_.
             preturn \<lparr>dr_status = ''success'',
                      dr_message = ''ONT '' @ ont_id @ '' eliminada exitosamente'',
                      dr_ont_id = ont_id,
                      dr_commands_executed = commands_executed @ [''write'']\<rparr>)))))))
          (\<lambda>cmd_error.
             pseq (pignore (pseq (sc_execute_command sc ''exit'') (sc_execute_command sc ''exit'')))
                  (praise cmd_error)))"

record authorize_result =
  ar_status :: string
  ar_message :: string
  ar_onu_id :: string
  ar_commands_executed :: "string list"

text \<open>A command that is executed and then appended to \<open>commands_executed\<close>.\<close>

definition execute_and_record ::
  "'s session_connection \<Rightarrow> string \<Rightarrow> string list \<Rightarrow> (string list, 's) prog" where
  "execute_and_record sc cmd commands_executed =
     pbind (sc_execute_command sc cmd) (\<lambda>_. preturn (commands_executed @ [cmd]))"

definition is_alnum :: "char \<Rightarrow> bool" where
  "is_alnum c \<longleftrightarrow> c \<in> set upper_letters \<or> c \<in> set lower_letters \<or> is_digit c"

text \<open>The command that tags the uplink port with the VLAN.\<close>

definition vlan_tag_command :: "string \<Rightarrow> string" where
  "vlan_tag_command vlan = ''vlan port eth_0/1 mode tag vlan '' @ vlan"

text \<open>\<open>autorizar_ont\<close>; \<open>zone\<close> is accepted and not used.\<close>

definition autorizar_ont ::
  "'s session_connection \<Rightarrow> string \<Rightarrow> string \<Rightarrow> string \<Rightarrow> string \<Rightarrow> string \<Rightarrow> string \<Rightarrow> string \<Rightarrow>
   string \<Rightarrow> string \<Rightarrow> (authorize_result, 's) prog" where
  "autorizar_ont sc board port onu_id sn onu_type vlan zone name onu_mode =
     (if \<not> (board \<noteq> [] \<and> port \<noteq> [] \<and> onu_id \<noteq> [] \<and> sn \<noteq> [] \<and> onu_type \<noteq> [] \<and> vlan \<noteq> [])
      then praise missing_parameters
      else
        (let sn_clean = filter is_alnum sn in
         pbind (sc_execute_command sc ''configure terminal'') (\<lambda>_.
         ptry
           (pbind (execute_and_record sc (''interface gpon-olt_1/'' @ board @ ''/'' @ port) []) (\<lambda>ce.
            pbind (execute_and_record sc
                     (''onu '' @ onu_id @ '' type '' @ onu_type @ '' sn '' @ sn_clean) ce) (\<lambda>ce.
            pbind (sc_execute_command sc ''exit'') (\<lambda>_.
            pbind (execute_and_record sc
                     (''interface gpon-onu_1/'' @ board @ ''/'' @ port @ '':'' @ onu_id) ce) (\<lambda>ce.
            pbind (if name \<noteq> []
                   then execute_and_record sc (''name '' @ py_replace '' '' ''_'' name) ce
                   else preturn ce) (\<lambda>ce.
            pbind (execute_and_record sc ''sn-bind enable sn'' ce) (\<lambda>ce.
            pbind (execute_and_record sc ''tcont 1 name T1 profile UL1G'' ce) (\<lambda>ce.
            pbind (execute_and_record sc ''gemport 1 unicast tcont 1 dir both'' ce) (\<lambda>ce.
            pbind (execute_and_record sc ''encrypt 1 enable downstream'' ce) (\<lambda>ce.
            pbind (execute_and_record sc ''switchport mode hybrid vport 1'' ce) (\<lambda>ce.
            pbind (execute_and_record sc
                     (''service-port 1 vport 1 user-vlan '' @ vlan @ '' vlan '' @ vlan) ce) (\<lambda>ce.
            pbind (sc_execute_command sc ''exit'') (\<lambda>_.
            pbind (execute_and_record sc
                     (''pon-onu-mng gpon-onu_1/'' @ board @ ''/'' @ port @ '':'' @ onu_id) ce) (\<lambda>ce.
            pbind (execute_and_record sc
                     (''service ServiceName type internet gemport 1 vlan '' @ vlan) ce) (\<lambda>ce.
            pbind (if py_lower onu_mode = ''bridging''
                   then execute_and_record sc (vlan_tag_command vlan) ce
                   else preturn ce) (\<lambda>ce.
            pbind (sc_execute_command sc ''exit'') (\<lambda>_.
            pbind (sc_execute_command sc ''exit'') (\<lambda>_.
            pbind (execute_and_record sc ''write'' ce) (\<lambda>ce.
            preturn \<lparr>ar_status = ''success'',
                     ar_message = ''ONT autorizada exitosamente en posici'' @ [CHR 0xC3, CHR 0xB3] @
                                  ''n '' @ onu_id,
                     ar_onu_id = onu_id,
                     ar_commands_executed = ce\<rparr>)))))))))))))))))))
           (\<lambda>cmd_error.
              pseq (pignore (pseq (sc_execute_command sc ''exit'')
                            (pseq (sc_execute_command sc ''exit'') (sc_execute_command sc ''exit''))))
                   (praise cmd_error)))))"

section \<open>The next free ONU id, asked of the device\<close>

text \<open>
  \<open>obtener_siguiente_onu_id\<close>: the running configuration of the port is read with one
  command; an exception of the command is logged and raised again.
\<close>

definition obtener_siguiente_onu_id ::
  "'s session_connection \<Rightarrow> string \<Rightarrow> string \<Rightarrow> (int, 's) prog" where
  "obtener_siguiente_onu_id sc board port =
     pbind (sc_execute_command sc (''show run interface gpon-olt_1/'' @ board @ ''/'' @ port))
       (\<lambda>output s. (next_onu_id_of_output output, s))"

section \<open>A session that answers every command\<close>

text \<open>
  An object with the methods of a session, for running the workflows: it answers the
  \<open>n\<close>-th command with \<open>answers ! n\<close> (with the prompt when the list is used up) and
  keeps the commands it was given.
\<close>

definition answering_session :: "string list \<Rightarrow> (string list) session_connection" where
  "answering_session answers =
     \<lparr>sc_execute_command =
        (\<lambda>cmd given. (Inr (if length given < length answers then answers ! length given else ''#''),
                       given @ [cmd])),
      sc_enter_interface = (\<lambda>tarjeta. preturn ()),
      sc_exit_interface = preturn ()\<rparr>"

section \<open>A session that records the commands it is given\<close>

text \<open>
  A session that keeps, beside the state of the session it wraps, the list of the commands
  it has been given.
\<close>

definition recording_session :: "'s session_connection \<Rightarrow> ('s \<times> string list) session_connection" where
  "recording_session sc =
     \<lparr>sc_execute_command =
        (\<lambda>cmd st. case sc_execute_command sc cmd (fst st) of
                     (res, s') \<Rightarrow> (res, (s', snd st @ [cmd]))),
      sc_enter_interface =
        (\<lambda>tarjeta st. case sc_enter_interface sc tarjeta (fst st) of
                         (res, s') \<Rightarrow> (res, (s', snd st))),
      sc_exit_interface =
        (\<lambda>st. case sc_exit_interface sc (fst st) of (res, s') \<Rightarrow> (res, (s', snd st)))\<rparr>"

text \<open>A method that adds only commands of \<open>C\<close> to the list of a recording session.\<close>

definition issues_only :: "string set \<Rightarrow> ('a, 's \<times> string list) prog \<Rightarrow> bool" where
  "issues_only C m \<longleftrightarrow>
     (\<forall>s issued res s' issued'. m (s, issued) = (res, (s', issued')) \<longrightarrow>
        set issued' \<subseteq> set issued \<union> C)"

text \<open>
  A method on a recording session that returns what the method on the wrapped session
  returns and leaves the wrapped session in the same state.
\<close>

definition mirrors :: "('a, 's) prog \<Rightarrow> ('a, 's \<times> string list) prog \<Rightarrow> bool" where
  "mirrors m m' \<longleftrightarrow>
     (\<forall>s issued. fst (m' (s, issued)) = fst (m s) \<and> fst (snd (m' (s, issued))) = snd (m s))"

section \<open>Concrete runs of the service\<close>

text \<open>What has been written to the channel of a session.\<close>

definition session_sent :: "string \<Rightarrow> pool \<Rightarrow> string list" where
  "session_sent session_id p =
     (case map_of (connections p) session_id of
        None \<Rightarrow> []
      | Some sd \<Rightarrow> (case connection sd of None \<Rightarrow> [] | Some ch \<Rightarrow> sent ch))"






text \<open>A device that knows no ONU on the port asked for.\<close>

definition empty_port_net :: network where
  "empty_port_net n cfg =
     Accepted (open_channel [Text ''ZXAN(config)#'', Text [],
                             Text ''%Code 32310: No related information to show.''])"

text \<open>The results of authorizing ONU 7 on port 2/3 with VLAN 100 when every command succeeds.\<close>

definition authorized_commands :: "string list \<Rightarrow> string list" where
  "authorized_commands extra =
     [''interface gpon-olt_1/2/3'', ''onu 7 type ZTE-F660 sn HWTC0037DCC7'',
      ''interface gpon-onu_1/2/3:7'', ''name casa_juan'', ''sn-bind enable sn'',
      ''tcont 1 name T1 profile UL1G'', ''gemport 1 unicast tcont 1 dir both'',
      ''encrypt 1 enable downstream'', ''switchport mode hybrid vport 1'',
      ''service-port 1 vport 1 user-vlan 100 vlan 100'', ''pon-onu-mng gpon-onu_1/2/3:7'',
      ''service ServiceName type internet gemport 1 vlan 100''] @ extra @ [''write'']"

definition authorized_result :: "string list \<Rightarrow> authorize_result" where
  "authorized_result extra =
     \<lparr>ar_status = ''success'',
      ar_message = ''ONT autorizada exitosamente en posici'' @ [CHR 0xC3, CHR 0xB3] @ ''n 7'',
      ar_onu_id = ''7'',
      ar_commands_executed = authorized_commands extra\<rparr>"

definition authorize_run :: "string \<Rightarrow> (exn + authorize_result) \<times> string list" where
  "authorize_run onu_mode =
     autorizar_ont (answering_session []) ''2'' ''3'' ''7'' ''HWTC-0037DCC7'' ''ZTE-F660'' ''100'' []
       ''casa juan'' onu_mode []"

text \<open>The same runs on a recording session, and the commands they give to the device.\<close>

definition issued_commands :: "string list \<Rightarrow> string list" where
  "issued_commands extra =
     [''configure terminal'', ''interface gpon-olt_1/2/3'', ''onu 7 type ZTE-F660 sn HWTC0037DCC7'',
      ''exit'', ''interface gpon-onu_1/2/3:7'', ''name casa_juan'', ''sn-bind enable sn'',
      ''tcont 1 name T1 profile UL1G'', ''gemport 1 unicast tcont 1 dir both'',
      ''encrypt 1 enable downstream'', ''switchport mode hybrid vport 1'',
      ''service-port 1 vport 1 user-vlan 100 vlan 100'', ''exit'', ''pon-onu-mng gpon-onu_1/2/3:7'',
      ''service ServiceName type internet gemport 1 vlan 100''] @ extra @
     [''exit'', ''exit'', ''write'']"

definition recorded_run ::
  "string \<Rightarrow> (exn + authorize_result) \<times> string list \<times> string list" where
  "recorded_run onu_mode =
     autorizar_ont (recording_session (answering_session [])) ''2'' ''3'' ''7'' ''HWTC-0037DCC7''
       ''ZTE-F660'' ''100'' [] ''casa juan'' onu_mode ([], [])"

section \<open>Records that carry the optional fields\<close>






section \<open>Shared lemmas\<close>

lemma map_of_dict_set:
  "map_of (dict_set d k v) k' = (if k' = k then Some v else map_of d k')"
  by (induction d k v rule: dict_set.induct) auto

lemma pbind_InrE:
  assumes "pbind m f s = (Inr y, s')"
  obtains x s1 where "m s = (Inr x, s1)" and "f x s1 = (Inr y, s')"
  using assms by (auto simp add: pbind_def split: prod.splits sum.splits)

section \<open>Vendor classification of autofind table lines\<close>

lemma parse_scenario_C_line:
  "parse_table_line scenario_C_line =
     Some [(''number'', ''2''), (''fsp'', ''1/1/5''), (''board'', ''1''),
           (''port'', ''5''), (''sn'', ''HWTC00FFF039''), (''sn_hex'', ''HWTC00FFF039''),
           (''state'', ''unknown''), (''pon_type'', ''GPON''), (''vendor_id'', ''HWTC''),
           (''type'', ''Unknown''), (''ont_version'', ''''), (''software_version'', ''''),
           (''equipment_id'', ''''), (''autofind_time'', ''''), (''password'', ''''),
           (''loid'', '''')]"
  by code_simp

lemma hwtc_prefix: "py_upper (take 4 ''HWTC00FFF039'') = ''HWTC''"
  by code_simp

lemma hwtc_pon: "detect_pon_type_from_sn ''HWTC00FFF039'' = ''GPON''"
  by code_simp

text \<open>The classification is decided by the two vendor tables and by nothing else.\<close>

lemma detect_pon_type_from_sn_tables:
  "detect_pon_type_from_sn sn =
     (if 4 \<le> length sn \<and> py_upper (take 4 sn) \<in> set xgpon_vendors then ''XG-PON'' else ''GPON'')"
  by (simp add: detect_pon_type_from_sn_def Let_def)

lemma vendor_tables_disjoint: "v \<in> set gpon_vendors \<Longrightarrow> v \<notin> set xgpon_vendors"
  by (auto simp add: gpon_vendors_def xgpon_vendors_def)

text \<open>The \<open>pon_type\<close> of every record of a table line is the classification of its \<open>sn\<close>.\<close>

lemma parse_table_line_pon_type:
  assumes "parse_table_line line = Some r"
  shows "\<exists>sn. map_of r ''sn'' = Some sn \<and> map_of r ''pon_type'' = Some (detect_pon_type_from_sn sn)"
  using assms
  by (auto simp add: parse_table_line_def Let_def split: list.splits option.splits if_splits)

text \<open>
  C7. The autofind table line \<open>gpon-onu_1/1/5:2   HWTC00FFF039   unknown\<close> is parsed to a
  record with serial number \<open>HWTC00FFF039\<close>, board \<open>1\<close>, port \<open>5\<close> and PON type
  \<open>GPON\<close>. The PON type of every record of a table line is the classification of its
  serial, and the classification is a lookup of the four-character prefix, in upper case
  (\<open>sn[:4].upper()\<close>), in the vendor tables: \<open>XG-PON\<close> for a prefix of the XG-PON
  table, \<open>GPON\<close> for a prefix of the GPON table such as \<open>HWTC\<close>, and the default
  \<open>GPON\<close> for every serial whose prefix is in neither table or that is shorter than
  four characters.
\<close>

theorem autofind_table_line_pon_type:
  "(\<exists>r. parse_table_line scenario_C_line = Some r
        \<and> map_of r ''sn'' = Some ''HWTC00FFF039''
        \<and> map_of r ''board'' = Some ''1''
        \<and> map_of r ''port'' = Some ''5''
        \<and> map_of r ''pon_type'' = Some ''GPON''
        \<and> map_of r ''pon_type'' = Some (detect_pon_type_from_sn ''HWTC00FFF039''))
   \<and> py_upper (take 4 ''HWTC00FFF039'') = ''HWTC''
   \<and> ''HWTC'' \<in> set gpon_vendors
   \<and> (py_upper (take 4 sn) \<notin> set (gpon_vendors @ xgpon_vendors)
        \<longrightarrow> detect_pon_type_from_sn sn = ''GPON'')
   \<and> (4 \<le> length sn \<and> py_upper (take 4 sn) \<in> set xgpon_vendors
        \<longrightarrow> detect_pon_type_from_sn sn = ''XG-PON'')
   \<and> (py_upper (take 4 sn) \<in> set gpon_vendors
        \<longrightarrow> detect_pon_type_from_sn sn = ''GPON'')
   \<and> (length sn < 4 \<longrightarrow> detect_pon_type_from_sn sn = ''GPON'')
   \<and> (\<forall>r. parse_table_line line = Some r \<longrightarrow>
          (\<exists>s. map_of r ''sn'' = Some s
             \<and> map_of r ''pon_type'' = Some (detect_pon_type_from_sn s)))"
proof -
  have a: "\<exists>r. parse_table_line scenario_C_line = Some r
        \<and> map_of r ''sn'' = Some ''HWTC00FFF039''
        \<and> map_of r ''board'' = Some ''1''
        \<and> map_of r ''port'' = Some ''5''
        \<and> map_of r ''pon_type'' = Some ''GPON''
        \<and> map_of r ''pon_type'' = Some (detect_pon_type_from_sn ''HWTC00FFF039'')"
    unfolding hwtc_pon parse_scenario_C_line by simp
  have b: "''HWTC'' \<in> set gpon_vendors"
    by (simp add: gpon_vendors_def)
  have c: "py_upper (take 4 sn) \<notin> set (gpon_vendors @ xgpon_vendors)
        \<longrightarrow> detect_pon_type_from_sn sn = ''GPON''"
    by (simp add: detect_pon_type_from_sn_tables)
  have d: "4 \<le> length sn \<and> py_upper (take 4 sn) \<in> set xgpon_vendors
        \<longrightarrow> detect_pon_type_from_sn sn = ''XG-PON''"
    by (simp add: detect_pon_type_from_sn_tables)
  have e: "py_upper (take 4 sn) \<in> set gpon_vendors \<longrightarrow> detect_pon_type_from_sn sn = ''GPON''"
    using vendor_tables_disjoint [of "py_upper (take 4 sn)"]
    by (simp add: detect_pon_type_from_sn_tables)
  have f: "length sn < 4 \<longrightarrow> detect_pon_type_from_sn sn = ''GPON''"
    by (simp add: detect_pon_type_from_sn_tables)
  have g: "\<forall>r. parse_table_line line = Some r \<longrightarrow>
          (\<exists>s. map_of r ''sn'' = Some s
             \<and> map_of r ''pon_type'' = Some (detect_pon_type_from_sn s))"
    using parse_table_line_pon_type by blast
  from a hwtc_prefix b c d e f g show ?thesis by blast
qed

theorem autofind_table_line_pon_type_witness:
  "detect_pon_type_from_sn ''ABCD12345678'' = ''GPON''
   \<and> detect_pon_type_from_sn ''HWTX12345678'' = ''XG-PON''
   \<and> detect_pon_type_from_sn ''zteg12345678'' = ''GPON''
   \<and> detect_pon_type_from_sn ''HW'' = ''GPON''
   \<and> map_of [(''number'', ''3''), (''fsp'', ''1/1/5''), (''board'', ''1''),
              (''port'', ''5''), (''sn'', ''HWTX12345678''), (''sn_hex'', ''HWTX12345678''),
              (''state'', ''unknown''), (''pon_type'', ''XG-PON''), (''vendor_id'', ''HWTX''),
              (''type'', ''Unknown''), (''ont_version'', ''''), (''software_version'', ''''),
              (''equipment_id'', ''''), (''autofind_time'', ''''), (''password'', ''''),
              (''loid'', '''')] ''pon_type''
       = Some (detect_pon_type_from_sn ''HWTX12345678'')"
proof -
  let ?r = "[(''number'', ''3''), (''fsp'', ''1/1/5''), (''board'', ''1''),
              (''port'', ''5''), (''sn'', ''HWTX12345678''), (''sn_hex'', ''HWTX12345678''),
              (''state'', ''unknown''), (''pon_type'', ''XG-PON''), (''vendor_id'', ''HWTX''),
              (''type'', ''Unknown''), (''ont_version'', ''''), (''software_version'', ''''),
              (''equipment_id'', ''''), (''autofind_time'', ''''), (''password'', ''''),
              (''loid'', '''')]"
  have h1: "py_upper (take 4 ''ABCD12345678'') \<notin> set (gpon_vendors @ xgpon_vendors)"
    by code_simp
  have h2: "4 \<le> length ''HWTX12345678'' \<and> py_upper (take 4 ''HWTX12345678'') \<in> set xgpon_vendors"
    by code_simp
  have h3: "py_upper (take 4 ''zteg12345678'') \<in> set gpon_vendors"
    by code_simp
  have h4: "length ''HW'' < 4" by simp
  have h5: "parse_table_line xgpon_line = Some ?r" by code_simp
  have h6: "map_of ?r ''sn'' = Some ''HWTX12345678''" by simp
  from autofind_table_line_pon_type [of "''ABCD12345678''" xgpon_line] h1
  have w1: "detect_pon_type_from_sn ''ABCD12345678'' = ''GPON''" by blast
  from autofind_table_line_pon_type [of "''HWTX12345678''" xgpon_line] h2
  have w2: "detect_pon_type_from_sn ''HWTX12345678'' = ''XG-PON''" by blast
  from autofind_table_line_pon_type [of "''zteg12345678''" xgpon_line] h3
  have w3: "detect_pon_type_from_sn ''zteg12345678'' = ''GPON''" by blast
  from autofind_table_line_pon_type [of "''HW''" xgpon_line] h4
  have w4: "detect_pon_type_from_sn ''HW'' = ''GPON''" by blast
  from autofind_table_line_pon_type [of "''HW''" xgpon_line] h5
  obtain s where "map_of ?r ''sn'' = Some s"
    and "map_of ?r ''pon_type'' = Some (detect_pon_type_from_sn s)"
    by blast
  with h6 have w5: "map_of ?r ''pon_type'' = Some (detect_pon_type_from_sn ''HWTX12345678'')"
    by simp
  from w1 w2 w3 w4 w5 show ?thesis by blast
qed

section \<open>The ZTE state table: scenario A\<close>

lemma zte_state_line_started:
  "fst st \<Longrightarrow> fst (zte_state_line tarjeta puerto raw st)"
  by (simp add: zte_state_line_def Let_def split: list.splits option.splits)

lemma zte_state_fold_started:
  "fst st \<Longrightarrow> fst (fold (zte_state_line tarjeta puerto) ls st)"
  by (induction ls arbitrary: st) (simp_all add: zte_state_line_started)

lemma zte_state_line_separator:
  "py_in ''---'' (py_strip raw) \<Longrightarrow> fst (zte_state_line tarjeta puerto raw st)"
  by (simp add: zte_state_line_def Let_def)

lemma zte_state_fold_separator:
  "\<exists>l \<in> set ls. py_in ''---'' (py_strip l) \<Longrightarrow> fst (fold (zte_state_line tarjeta puerto) ls st)"
proof (induction ls arbitrary: st)
  case Nil
  then show ?case by simp
next
  case (Cons l ls)
  show ?case
  proof (cases "py_in ''---'' (py_strip l)")
    case True
    then have "fst (zte_state_line tarjeta puerto l st)"
      by (rule zte_state_line_separator)
    then show ?thesis
      by (simp add: zte_state_fold_started)
  next
    case False
    with Cons.prems have "\<exists>l \<in> set ls. py_in ''---'' (py_strip l)" by simp
    then show ?thesis
      by (simp add: Cons.IH)
  qed
qed

lemma scenario_A_strip: "py_strip scenario_A_line = scenario_A_line"
  by code_simp

lemma scenario_A_tests:
  "py_in ''---'' scenario_A_line = False"
  "py_in ''OnuIndex'' scenario_A_line = False"
  "py_in ''Admin State'' scenario_A_line = False"
  "py_in ''gpon-onu_'' scenario_A_line = True"
  by code_simp+

lemma scenario_A_split:
  "py_split scenario_A_line = [''gpon-onu_1/2/3:1'', ''enable'', ''enable'', ''operation'', ''working'']"
  by code_simp

lemma scenario_A_index:
  "py_in '':'' ''gpon-onu_1/2/3:1'' = True"
  "onu_index_id ''gpon-onu_1/2/3:1'' = Some ''1''"
  "zte_estado ''enable'' ''operation'' ''working'' = ''online''"
  by code_simp+

lemma zte_state_line_scenario_A:
  "fst st \<Longrightarrow>
     zte_state_line tarjeta puerto scenario_A_line st =
       (True, dict_set (snd st) ''1''
                (zte_state_record ''1'' tarjeta puerto ''online'' ''gpon-onu_1/2/3:1''))"
  by (simp add: zte_state_line_def scenario_A_strip scenario_A_tests scenario_A_split
        scenario_A_index)

lemma zte_state_line_other_id:
  assumes "\<forall>w. line_onu_index raw = Some w \<longrightarrow> onu_index_id w \<noteq> Some ''1''"
  shows "map_of (snd (zte_state_line tarjeta puerto raw st)) ''1'' = map_of (snd st) ''1''"
  using assms
  by (auto simp add: zte_state_line_def line_onu_index_def Let_def map_of_dict_set
        split: list.splits option.splits)

lemma zte_state_fold_other_id:
  assumes "\<forall>l \<in> set ls. \<forall>w. line_onu_index l = Some w \<longrightarrow> onu_index_id w \<noteq> Some ''1''"
  shows "map_of (snd (fold (zte_state_line tarjeta puerto) ls st)) ''1'' = map_of (snd st) ''1''"
  using assms
proof (induction ls arbitrary: st)
  case Nil
  then show ?case by simp
next
  case (Cons l ls)
  then show ?case
    by (simp add: zte_state_line_other_id)
qed

text \<open>
  C6, as amended. The state parser only reads data lines after a separator line (one that
  contains \<open>---\<close>), and a later line with the same id replaces the record. For every
  payload in which the line \<open>gpon-onu_1/2/3:1  enable  enable  operation  working\<close> comes
  after a separator line and no later line carries the id \<open>1\<close>, the parser invoked for
  board \<open>2\<close> and port \<open>3\<close> returns under id \<open>1\<close> the record with \<open>id = 1\<close>,
  \<open>tarjeta = 2\<close>, \<open>puerto = 3\<close> and \<open>estado = online\<close>, whatever records were there
  before.
\<close>

theorem zte_state_scenario_A:
  assumes lines: "split_on newline payload = pre @ [scenario_A_line] @ post"
      and sep: "\<exists>l \<in> set pre. py_in ''---'' (py_strip l)"
      and later: "\<forall>l \<in> set post. \<forall>w. line_onu_index l = Some w \<longrightarrow> onu_index_id w \<noteq> Some ''1''"
  shows "map_of (parse_zte_state_data payload onts ''2'' ''3'') ''1'' =
           Some [(''id'', PStr ''1''), (''tarjeta'', PStr ''2''), (''puerto'', PStr ''3''),
                 (''estado'', PStr ''online''), (''last_down_cause'', PNone),
                 (''last_down_time'', PNone), (''descripcion'', PStr ''gpon-onu_1/2/3:1''),
                 (''ont_rx'', PNone), (''olt_rx'', PNone), (''temperature'', PNone),
                 (''distance'', PNone)]"
proof -
  let ?f = "zte_state_line ''2'' ''3''"
  let ?s1 = "fold ?f pre (False, onts)"
  have started: "fst ?s1"
    using sep by (rule zte_state_fold_separator)
  have "map_of (snd (fold ?f post (?f scenario_A_line ?s1))) ''1''
          = map_of (snd (?f scenario_A_line ?s1)) ''1''"
    using later by (rule zte_state_fold_other_id)
  also have "\<dots> = Some (zte_state_record ''1'' ''2'' ''3'' ''online'' ''gpon-onu_1/2/3:1'')"
    by (simp add: zte_state_line_scenario_A [OF started] map_of_dict_set)
  finally show ?thesis
    by (simp add: parse_zte_state_data_def lines zte_state_record_def)
qed

lemma scenario_A_payload_lines:
  "split_on newline scenario_A_payload =
     [''OnuIndex   Admin State  OMCC State  O7 State   Phase State'',
      ''-----------------------------------------------------------''] @
     [scenario_A_line] @ [''gpon-onu_1/2/3:2  enable  disable  unknown  LOS'']"
  by code_simp

theorem zte_state_scenario_A_witness:
  "map_of (parse_zte_state_data scenario_A_payload [] ''2'' ''3'') ''1'' =
           Some [(''id'', PStr ''1''), (''tarjeta'', PStr ''2''), (''puerto'', PStr ''3''),
                 (''estado'', PStr ''online''), (''last_down_cause'', PNone),
                 (''last_down_time'', PNone), (''descripcion'', PStr ''gpon-onu_1/2/3:1''),
                 (''ont_rx'', PNone), (''olt_rx'', PNone), (''temperature'', PNone),
                 (''distance'', PNone)]"
proof (rule zte_state_scenario_A [OF scenario_A_payload_lines])
  show "\<exists>l \<in> set [''OnuIndex   Admin State  OMCC State  O7 State   Phase State'',
      ''-----------------------------------------------------------'']. py_in ''---'' (py_strip l)"
    by code_simp
  show "\<forall>l \<in> set [''gpon-onu_1/2/3:2  enable  disable  unknown  LOS''].
          \<forall>w. line_onu_index l = Some w \<longrightarrow> onu_index_id w \<noteq> Some ''1''"
  proof -
    have "line_onu_index ''gpon-onu_1/2/3:2  enable  disable  unknown  LOS'' = Some ''gpon-onu_1/2/3:2''"
      by code_simp
    moreover have "onu_index_id ''gpon-onu_1/2/3:2'' \<noteq> Some ''1''"
      by code_simp
    ultimately show ?thesis by simp
  qed
qed

text \<open>
  C6 as stated fails: a payload that consists of the scenario line alone contains the line,
  and the parser returns no record for it, since no separator line came first.
\<close>

theorem zte_state_no_separator_counterexample:
  "parse_zte_state_data scenario_A_line [] ''2'' ''3'' = []"
  by code_simp

section \<open>The next free ONU id\<close>

lemma set_fold_used_ids_line:
  "set (fold used_ids_line ls acc) = set acc \<union> {i. \<exists>raw \<in> set ls. onu_line_id raw = Some i}"
  by (induction ls arbitrary: acc) (auto simp add: used_ids_line_def split: option.splits)

lemma set_used_ids: "set (used_ids output) = configured_ids output"
  by (simp add: used_ids_def configured_ids_def set_fold_used_ids_line)

lemma find_upto_Some:
  assumes "find P [lo .. hi] = Some i"
  shows "lo \<le> i \<and> i \<le> hi \<and> P i \<and> (\<forall>j. lo \<le> j \<and> j < i \<longrightarrow> \<not> P j)"
proof -
  from assms obtain n where n: "n < length [lo .. hi]" "P ([lo .. hi] ! n)" "i = [lo .. hi] ! n"
    and least: "\<forall>m<n. \<not> P ([lo .. hi] ! m)"
    by (auto simp add: find_Some_iff)
  from n have i: "i = lo + int n" and bound: "lo + int n \<le> hi"
    by auto
  have "\<not> P j" if "lo \<le> j" "j < i" for j
  proof -
    from that i have "nat (j - lo) < n" by linarith
    with least have "\<not> P ([lo .. hi] ! nat (j - lo))" by blast
    moreover have "[lo .. hi] ! nat (j - lo) = j"
      using that i bound by (simp add: nth_upto)
    ultimately show ?thesis by simp
  qed
  with n i bound show ?thesis by auto
qed

text \<open>
  C10. From the running configuration of a port, the computation returns the smallest
  integer of 1..128 that no \<open>onu <id> type ...\<close> line of the text configures; it
  returns a value whenever such an integer exists, and the value is in range and unused;
  when every id of 1..128 is configured it raises the port-full exception. This is what
  \<open>obtener_siguiente_onu_id\<close> returns or raises once the device has returned the text.
\<close>

theorem next_onu_id_smallest_unused:
  "(\<forall>i. next_onu_id_of_output output = Inr i \<longrightarrow>
        1 \<le> i \<and> i \<le> 128 \<and> i \<notin> configured_ids output \<and>
        (\<forall>j. 1 \<le> j \<and> j < i \<longrightarrow> j \<in> configured_ids output))
   \<and> ((\<exists>j. 1 \<le> j \<and> j \<le> 128 \<and> j \<notin> configured_ids output) \<longrightarrow>
        (\<exists>i. next_onu_id_of_output output = Inr i))
   \<and> ((\<forall>j. 1 \<le> j \<and> j \<le> 128 \<longrightarrow> j \<in> configured_ids output) \<longrightarrow>
        next_onu_id_of_output output = Inl port_full)
   \<and> (sc_execute_command sc (''show run interface gpon-olt_1/'' @ board @ ''/'' @ port) s
          = (Inr output, s') \<longrightarrow>
        obtener_siguiente_onu_id sc board port s = (next_onu_id_of_output output, s'))"
proof (intro conjI)
  show "\<forall>i. next_onu_id_of_output output = Inr i \<longrightarrow>
        1 \<le> i \<and> i \<le> 128 \<and> i \<notin> configured_ids output \<and>
        (\<forall>j. 1 \<le> j \<and> j < i \<longrightarrow> j \<in> configured_ids output)"
  proof (intro allI impI)
    fix i
    assume "next_onu_id_of_output output = Inr i"
    then have "find (\<lambda>i. i \<notin> configured_ids output) [1 .. 128] = Some i"
      by (simp add: next_onu_id_of_output_def set_used_ids split: option.splits)
    from find_upto_Some [OF this]
    show "1 \<le> i \<and> i \<le> 128 \<and> i \<notin> configured_ids output \<and>
        (\<forall>j. 1 \<le> j \<and> j < i \<longrightarrow> j \<in> configured_ids output)"
      by auto
  qed
next
  show "(\<exists>j. 1 \<le> j \<and> j \<le> 128 \<and> j \<notin> configured_ids output) \<longrightarrow>
        (\<exists>i. next_onu_id_of_output output = Inr i)"
  proof
    assume "\<exists>j. 1 \<le> j \<and> j \<le> 128 \<and> j \<notin> configured_ids output"
    then have "find (\<lambda>i. i \<notin> configured_ids output) [1 .. 128] \<noteq> None"
      by (auto simp add: find_None_iff)
    then show "\<exists>i. next_onu_id_of_output output = Inr i"
      by (auto simp add: next_onu_id_of_output_def set_used_ids)
  qed
next
  show "(\<forall>j. 1 \<le> j \<and> j \<le> 128 \<longrightarrow> j \<in> configured_ids output) \<longrightarrow>
        next_onu_id_of_output output = Inl port_full"
  proof
    assume "\<forall>j. 1 \<le> j \<and> j \<le> 128 \<longrightarrow> j \<in> configured_ids output"
    then have "find (\<lambda>i. i \<notin> configured_ids output) [1 .. 128] = None"
      by (auto simp add: find_None_iff)
    then show "next_onu_id_of_output output = Inl port_full"
      by (simp add: next_onu_id_of_output_def set_used_ids port_full_def)
  qed
next
  show "sc_execute_command sc (''show run interface gpon-olt_1/'' @ board @ ''/'' @ port) s
          = (Inr output, s') \<longrightarrow>
        obtener_siguiente_onu_id sc board port s = (next_onu_id_of_output output, s')"
    by (simp add: obtener_siguiente_onu_id_def pbind_def)
qed

theorem next_onu_id_smallest_unused_witness:
  "obtener_siguiente_onu_id (answering_session [running_config]) ''2'' ''3'' []
     = (Inr 3, [''show run interface gpon-olt_1/2/3''])
   \<and> 3 \<notin> configured_ids running_config
   \<and> 1 \<in> configured_ids running_config \<and> 2 \<in> configured_ids running_config"
proof -
  have r: "next_onu_id_of_output running_config = Inr 3"
    by code_simp
  have c: "sc_execute_command (answering_session [running_config])
             (''show run interface gpon-olt_1/'' @ ''2'' @ ''/'' @ ''3'') []
           = (Inr running_config, [''show run interface gpon-olt_1/2/3''])"
    by (simp add: answering_session_def)
  note t = next_onu_id_smallest_unused
             [of running_config "answering_session [running_config]" "''2''" "''3''" "[]"
                 "[''show run interface gpon-olt_1/2/3'']"]
  from t c r have run: "obtener_siguiente_onu_id (answering_session [running_config]) ''2'' ''3'' []
     = (Inr 3, [''show run interface gpon-olt_1/2/3''])"
    by simp
  from t r have "3 \<notin> configured_ids running_config"
    and "\<forall>j. 1 \<le> j \<and> j < 3 \<longrightarrow> j \<in> configured_ids running_config"
    by blast+
  with run show ?thesis by simp
qed

section \<open>The autofind parser on block-format payloads\<close>

text \<open>
  C2. The claim is that the autofind parser never raises. On a payload with the block
  markers \<open>Number:\<close> and \<open>F/S/P:\<close> the code reaches \<open>_parse_blocks_format\<close>, which
  calls a method the class does not define: the parser raises \<open>AttributeError\<close>.
\<close>

theorem autofind_blocks_raises:
  "parse_autofind_data blocks_payload = Inl no_split_by_ont_blocks"
  by code_simp

lemma parse_autofind_data_unknown:
  "detect_autofind_format output = ''unknown'' \<Longrightarrow> parse_autofind_data output = Inr []"
  by (simp add: parse_autofind_data_def)

section \<open>The connect-attempt cap\<close>

text \<open>
  A session without a channel always reaches \<open>ConnectHandler\<close>, whatever its counter:
  the counter is compared with 3 only in the \<open>except\<close> block, after the attempt.
\<close>

lemma get_ssh_connection_no_channel:
  assumes "map_of (connections p) session_id = Some sd" and "connection sd = None"
  shows "net_attempts (snd (get_ssh_connection net session_id p)) = net_attempts p + 1"
  using assms
  by (simp add: get_ssh_connection_def Let_def connect_failed_def
        split: connect_outcome.splits prod.splits sum.splits)

text \<open>
  C1. The claim is that after three failed connection attempts the next command is refused
  with the stored error and without a fourth network attempt. Session \<open>u1\<close> fails to
  connect three times (counter 3, stored error \<open>timed out #2\<close>, three network attempts);
  the next \<open>get_connection\<close> and command make a fourth network attempt, and the
  exception raised carries the error of that fourth attempt.
\<close>

theorem fourth_connect_attempt_is_made:
  "session_attempts ''u1'' pool_after_three_failures = Some 3
   \<and> session_last_error ''u1'' pool_after_three_failures = Some ''timed out #2''
   \<and> net_attempts pool_after_three_failures = 3
   \<and> fst (execute_command down_net ''u1'' ''show version''
            (get_connection ''u1'' pool_after_three_failures)) = Inl fourth_attempt_error
   \<and> net_attempts (snd (execute_command down_net ''u1'' ''show version''
                          (get_connection ''u1'' pool_after_three_failures))) = 4"
  by code_simp


section \<open>The tracked context across \<open>enter_interface\<close> and \<open>exit_interface\<close>\<close>

lemma read_channel_received:
  "read_channel ch = (Inr out, ch') \<Longrightarrow> received ch' = received ch @ [out]"
  by (auto simp add: read_channel_def split: if_splits list.splits reply.splits)

lemma on_channel_read:
  assumes "on_channel session_id read_channel p = (Inr out, p')"
  shows "last_received session_id p' = Some out"
    and "map_of (connections p') session_id \<noteq> None"
    and "get_session_context session_id p' = get_session_context session_id p"
  using assms
  by (auto simp add: on_channel_def last_received_def get_session_context_def map_of_dict_set
        read_channel_received split: option.splits prod.splits)

lemma set_session_context_present:
  assumes "map_of (connections p) session_id \<noteq> None"
      and "set_session_context session_id c p = (r, p')"
  shows "get_session_context session_id p' = c"
    and "last_received session_id p' = last_received session_id p"
  using assms
  by (auto simp add: set_session_context_def last_received_def get_session_context_def
        map_of_dict_set split: option.splits)

lemma read_then_set_context:
  assumes "on_channel session_id read_channel pc = (Inr out, pd)"
      and "set_session_context session_id c pd = (r, p')"
  shows "get_session_context session_id p' = c"
  using on_channel_read(2) [OF assms(1)] assms(2) by (rule set_session_context_present(1))

lemma enter_interface_context:
  assumes "enter_interface net session_id tarjeta p = (Inr u, p1)"
  shows "get_session_context session_id p1 = ''interface-gpon-0/'' @ tarjeta"
  using assms unfolding enter_interface_def Let_def
  apply (auto simp add: preturn_def praise_def elim!: pbind_InrE split: if_splits)
   apply (erule read_then_set_context, assumption)+
  done

lemma exit_interface_confirmed:
  assumes ctx: "startswith (get_session_context session_id p1) ''interface''"
      and ex: "exit_interface net session_id p1 = (Inr v, p2)"
      and last: "last_received session_id p2 = Some r"
      and marks: "py_in '')'' r" "py_in ''#'' r"
  shows "get_session_context session_id p2 = ''config''"
proof -
  from ex ctx obtain pc out pd where
    rd: "on_channel session_id read_channel pc = (Inr out, pd)" and
    fin: "(if py_in '')'' out \<and> py_in ''#'' out
           then set_session_context session_id ''config'' else preturn ()) pd = (Inr v, p2)"
    unfolding exit_interface_def by (auto elim!: pbind_InrE)
  show ?thesis
  proof (cases "py_in '')'' out \<and> py_in ''#'' out")
    case True
    with fin have "set_session_context session_id ''config'' pd = (Inr v, p2)" by simp
    with rd show ?thesis
      by (rule read_then_set_context)
  next
    case False
    with fin have "p2 = pd" by (auto simp add: preturn_def)
    with on_channel_read(1) [OF rd] last have "r = out" by simp
    with marks False show ?thesis by simp
  qed
qed

lemma interface_context_prefix:
  "startswith (''interface-gpon-0/'' @ tarjeta) ''interface''"
  by simp


lemma on_channel_context:
  assumes "on_channel session_id f p = (r, p')"
  shows "get_session_context session_id p' = get_session_context session_id p"
  using assms
  by (auto simp add: on_channel_def get_session_context_def map_of_dict_set
        split: option.splits prod.splits)

text \<open>A successful \<open>connect()\<close> leaves the context as it was or, after a reconnect, at \<open>config\<close>.\<close>

lemma get_ssh_connection_context:
  assumes "get_ssh_connection net session_id p = (Inr u, p')"
  shows "get_session_context session_id p' = ''config''
         \<or> get_session_context session_id p' = get_session_context session_id p"
  using assms
  by (auto simp add: get_ssh_connection_def connect_failed_def Let_def get_session_context_def
        map_of_dict_set
        split: option.splits prod.splits connect_outcome.splits sum.splits if_splits)

lemma exit_interface_context:
  assumes "exit_interface net session_id p1 = (Inr v, p2)"
  shows "get_session_context session_id p2 = ''config''
         \<or> get_session_context session_id p2 = get_session_context session_id p1"
proof (cases "startswith (get_session_context session_id p1) ''interface''")
  case False
  with assms show ?thesis by (simp add: exit_interface_def preturn_def)
next
  case True
  with assms obtain u pa pb pc out where
    co: "get_ssh_connection net session_id p1 = (Inr u, pa)" and
    wr: "on_channel session_id (write_channel (''quit'' @ newline)) pa = (Inr (), pb)" and
    rd: "on_channel session_id read_channel pb = (Inr out, pc)" and
    fin: "(if py_in '')'' out \<and> py_in ''#'' out
           then set_session_context session_id ''config'' else preturn ()) pc = (Inr v, p2)"
    unfolding exit_interface_def by (auto elim!: pbind_InrE)
  from on_channel_context [OF wr] on_channel_context [OF rd]
  have same: "get_session_context session_id pc = get_session_context session_id pa" by simp
  show ?thesis
  proof (cases "py_in '')'' out \<and> py_in ''#'' out")
    case True
    with fin have "set_session_context session_id ''config'' pc = (Inr v, p2)" by simp
    with rd have "get_session_context session_id p2 = ''config''"
      by (rule read_then_set_context)
    then show ?thesis by simp
  next
    case False
    with fin have "p2 = pc" by (auto simp add: preturn_def)
    with same get_ssh_connection_context [OF co] show ?thesis by auto
  qed
qed

text \<open>
  C4, as amended. \<open>exit_interface\<close> sets the context to \<open>config\<close> only when the text
  read after \<open>quit\<close> contains both \<open>)\<close> and \<open>#\<close>. For every interface name \<open>X\<close>,
  every session and every earlier context: when \<open>enter_interface(X)\<close> and then
  \<open>exit_interface()\<close> return normally and the text read last contains \<open>)\<close> and
  \<open>#\<close>, the tracked context is \<open>config\<close>; and in every case the tracked context after
  the two calls is either \<open>config\<close> or the interface context of \<open>X\<close>.
\<close>

theorem enter_then_exit_context:
  assumes "enter_interface net session_id tarjeta p = (Inr u, p1)"
      and "exit_interface net session_id p1 = (Inr v, p2)"
  shows "(\<forall>r. last_received session_id p2 = Some r \<and> py_in '')'' r \<and> py_in ''#'' r
             \<longrightarrow> get_session_context session_id p2 = ''config'')
         \<and> (get_session_context session_id p2 = ''config''
              \<or> get_session_context session_id p2 = ''interface-gpon-0/'' @ tarjeta)"
proof -
  have ctx: "get_session_context session_id p1 = ''interface-gpon-0/'' @ tarjeta"
    using assms(1) by (rule enter_interface_context)
  then have pre: "startswith (get_session_context session_id p1) ''interface''"
    using interface_context_prefix by simp
  have "get_session_context session_id p2 = ''config''"
    if "last_received session_id p2 = Some r" "py_in '')'' r" "py_in ''#'' r" for r
    using pre assms(2) that by (rule exit_interface_confirmed)
  moreover have "get_session_context session_id p2 = ''config''
              \<or> get_session_context session_id p2 = ''interface-gpon-0/'' @ tarjeta"
    using exit_interface_context [OF assms(2)] ctx by simp
  ultimately show ?thesis by blast
qed

theorem enter_then_exit_context_witness:
  "get_session_context ''u1''
     (snd (exit_interface prompt_quit_net ''u1''
            (snd (enter_interface prompt_quit_net ''u1'' ''1'' fresh_session_pool)))) = ''config''
   \<and> (get_session_context ''u1''
        (snd (exit_interface silent_quit_net ''u1''
               (snd (enter_interface silent_quit_net ''u1'' ''1'' fresh_session_pool)))) = ''config''
      \<or> get_session_context ''u1''
        (snd (exit_interface silent_quit_net ''u1''
               (snd (enter_interface silent_quit_net ''u1'' ''1'' fresh_session_pool))))
         = ''interface-gpon-0/'' @ ''1'')"
proof -
  let ?e = "enter_interface prompt_quit_net ''u1'' ''1'' fresh_session_pool"
  let ?x = "exit_interface prompt_quit_net ''u1'' (snd ?e)"
  let ?e' = "enter_interface silent_quit_net ''u1'' ''1'' fresh_session_pool"
  let ?x' = "exit_interface silent_quit_net ''u1'' (snd ?e')"
  have "fst ?e = Inr ()" by code_simp
  then have e: "?e = (Inr (), snd ?e)" by (metis prod.collapse)
  have "fst ?x = Inr ()" by code_simp
  then have x: "?x = (Inr (), snd ?x)" by (metis prod.collapse)
  have l: "last_received ''u1'' (snd ?x) = Some ''ZXAN(config)#''" by code_simp
  have m: "py_in '')'' ''ZXAN(config)#''" "py_in ''#'' ''ZXAN(config)#''" by code_simp+
  have "fst ?e' = Inr ()" by code_simp
  then have e': "?e' = (Inr (), snd ?e')" by (metis prod.collapse)
  have "fst ?x' = Inr ()" by code_simp
  then have x': "?x' = (Inr (), snd ?x')" by (metis prod.collapse)
  from enter_then_exit_context [OF e x] l m
  have "get_session_context ''u1'' (snd ?x) = ''config''" by blast
  moreover from enter_then_exit_context [OF e' x']
  have "get_session_context ''u1'' (snd ?x') = ''config''
        \<or> get_session_context ''u1'' (snd ?x') = ''interface-gpon-0/'' @ ''1''" by blast
  ultimately show ?thesis by blast
qed

text \<open>
  When the channel dies between the two calls, \<open>exit_interface\<close> reconnects, and the
  reconnect sets the context to \<open>config\<close> although the text read after \<open>quit\<close> has no
  prompt.
\<close>

lemma exit_interface_reconnects:
  "fst (exit_interface dying_net ''u1'' (snd (enter_interface dying_net ''u1'' ''1'' fresh_session_pool)))
     = Inr ()
   \<and> get_session_context ''u1'' (snd (enter_interface dying_net ''u1'' ''1'' fresh_session_pool))
     = ''interface-gpon-0/1''
   \<and> get_session_context ''u1''
        (snd (exit_interface dying_net ''u1''
               (snd (enter_interface dying_net ''u1'' ''1'' fresh_session_pool)))) = ''config''
   \<and> last_received ''u1''
        (snd (exit_interface dying_net ''u1''
               (snd (enter_interface dying_net ''u1'' ''1'' fresh_session_pool)))) = Some ''no prompt''
   \<and> net_attempts
        (snd (exit_interface dying_net ''u1''
               (snd (enter_interface dying_net ''u1'' ''1'' fresh_session_pool)))) = 2"
  by code_simp

text \<open>
  C4 as stated fails: when the device sends nothing back after \<open>quit\<close>, both calls
  return normally and the tracked context is still the interface.
\<close>

theorem enter_then_exit_context_counterexample:
  "fst (enter_interface silent_quit_net ''u1'' ''1'' fresh_session_pool) = Inr ()
   \<and> fst (exit_interface silent_quit_net ''u1''
            (snd (enter_interface silent_quit_net ''u1'' ''1'' fresh_session_pool))) = Inr ()
   \<and> get_session_context ''u1''
        (snd (exit_interface silent_quit_net ''u1''
               (snd (enter_interface silent_quit_net ''u1'' ''1'' fresh_session_pool))))
      = ''interface-gpon-0/1''"
  by code_simp

section \<open>Delete: a device reply that reports an error\<close>

lemma ptry_reraise_InrD:
  assumes "ptry m (\<lambda>e. pseq (pignore c) (praise e)) s = (Inr r, s')"
  shows "m s = (Inr r, s')"
  using assms
  by (auto simp add: ptry_def pseq_def pbind_def pignore_def praise_def
        split: prod.splits sum.splits)

lemma execute_and_record_InrD:
  assumes "execute_and_record sc cmd ce s = (Inr ce', s')"
  shows "ce' = ce @ [cmd]"
  using assms
  by (auto simp add: execute_and_record_def preturn_def elim!: pbind_InrE)

text \<open>
  C5. In every \<open>eliminar_ont(board, port, ont_id)\<close> whose three commands up to the removal
  command \<open>no onu <id>\<close> return normally, and in which the text returned for the removal
  command contains \<open>error\<close> or \<open>invalid\<close> in any letter case, the operation raises the
  exception \<open>Error al eliminar ONT: <text>\<close> and reports no success. The code has one
  exception class for this, \<open>Exception\<close>; it is the device-semantic error of the claim.
\<close>

theorem eliminar_ont_device_error:
  assumes "board \<noteq> []" and "port \<noteq> []" and "ont_id \<noteq> []"
      and "sc_execute_command sc ''configure terminal'' s = (Inr reply0, s0)"
      and "sc_execute_command sc (''interface gpon-olt_1/'' @ board @ ''/'' @ port) s0 = (Inr reply1, s1)"
      and "sc_execute_command sc (''no onu '' @ ont_id) s1 = (Inr reply2, s2)"
      and "py_in ''error'' (py_lower reply2) \<or> py_in ''invalid'' (py_lower reply2)"
  shows "fst (eliminar_ont sc board port ont_id s) =
           Inl (Exception (''Error al eliminar ONT: '' @ reply2))"
proof -
  have "fst (pseq (pignore c) (praise (Exception e)) t) = Inl (Exception e)"
    for c :: "(string, 's) prog" and e t
    by (simp add: pseq_def pbind_def pignore_def praise_def split: prod.splits)
  with assms show ?thesis
    by (simp add: eliminar_ont_def ptry_def pbind_def praise_def Let_def)
qed

theorem eliminar_ont_device_error_witness:
  "fst (eliminar_ont (answering_session [''#'', ''#'', ''Error: invalid index'']) ''2'' ''3'' ''7'' [])
     = Inl (Exception ''Error al eliminar ONT: Error: invalid index'')"
proof -
  let ?sc = "answering_session [''#'', ''#'', ''Error: invalid index'']"
  have a: "sc_execute_command ?sc ''configure terminal'' [] = (Inr ''#'', [''configure terminal''])"
    by (simp add: answering_session_def)
  have b: "sc_execute_command ?sc (''interface gpon-olt_1/'' @ ''2'' @ ''/'' @ ''3'') [''configure terminal'']
             = (Inr ''#'', [''configure terminal'', ''interface gpon-olt_1/2/3''])"
    by (simp add: answering_session_def)
  have c: "sc_execute_command ?sc (''no onu '' @ ''7'') [''configure terminal'', ''interface gpon-olt_1/2/3'']
             = (Inr ''Error: invalid index'',
                [''configure terminal'', ''interface gpon-olt_1/2/3'', ''no onu 7''])"
    by (simp add: answering_session_def)
  have d: "py_in ''error'' (py_lower ''Error: invalid index'')
           \<or> py_in ''invalid'' (py_lower ''Error: invalid index'')"
    by code_simp
  have n: "''2'' \<noteq> []" "''3'' \<noteq> []" "''7'' \<noteq> []" by simp_all
  from eliminar_ont_device_error [OF n a b c d] show ?thesis by simp
qed

section \<open>Authorize: the uplink VLAN tag\<close>

lemma autorizar_ont_commands:
  assumes "autorizar_ont sc board port onu_id sn onu_type vlan zone name onu_mode s = (Inr r, s')"
  shows "ar_commands_executed r =
           [''interface gpon-olt_1/'' @ board @ ''/'' @ port,
            ''onu '' @ onu_id @ '' type '' @ onu_type @ '' sn '' @ filter is_alnum sn,
            ''interface gpon-onu_1/'' @ board @ ''/'' @ port @ '':'' @ onu_id] @
           (if name \<noteq> [] then [''name '' @ py_replace '' '' ''_'' name] else []) @
           [''sn-bind enable sn'', ''tcont 1 name T1 profile UL1G'',
            ''gemport 1 unicast tcont 1 dir both'', ''encrypt 1 enable downstream'',
            ''switchport mode hybrid vport 1'',
            ''service-port 1 vport 1 user-vlan '' @ vlan @ '' vlan '' @ vlan,
            ''pon-onu-mng gpon-onu_1/'' @ board @ ''/'' @ port @ '':'' @ onu_id,
            ''service ServiceName type internet gemport 1 vlan '' @ vlan] @
           (if py_lower onu_mode = ''bridging'' then [vlan_tag_command vlan] else []) @
           [''write'']"
proof -
  from assms have ok: "board \<noteq> [] \<and> port \<noteq> [] \<and> onu_id \<noteq> [] \<and> sn \<noteq> [] \<and> onu_type \<noteq> [] \<and> vlan \<noteq> []"
    by (auto simp add: autorizar_ont_def praise_def split: if_splits)
  from assms ok show ?thesis
    unfolding autorizar_ont_def Let_def
    apply (simp only: if_False not_not simp_thms)
    apply (erule pbind_InrE)
    apply (drule ptry_reraise_InrD)
    apply (elim pbind_InrE)
    apply (auto simp add: preturn_def split: if_splits dest!: execute_and_record_InrD)
    done
qed


text \<open>What a recording session does with a command, and what the combinators keep.\<close>

lemma recording_execute:
  "sc_execute_command (recording_session sc) cmd (s, issued) = (res, (s', issued'))
   \<Longrightarrow> issued' = issued @ [cmd]"
  by (auto simp add: recording_session_def split: prod.splits)

lemma recording_execute_and_record:
  assumes "execute_and_record (recording_session sc) cmd ce (s, issued) = (Inr ce', (s', issued'))"
  shows "ce' = ce @ [cmd] \<and> issued' = issued @ [cmd]"
  using assms
  by (auto simp add: execute_and_record_def preturn_def elim!: pbind_InrE dest: recording_execute)

lemma issues_onlyD:
  assumes "issues_only C m" and "m (s, issued) = (res, (s', issued'))"
  shows "set issued' \<subseteq> set issued \<union> C"
  using assms unfolding issues_only_def by blast

lemma issues_only_preturn: "issues_only C (preturn x)"
  by (simp add: issues_only_def preturn_def)

lemma issues_only_praise: "issues_only C (praise e)"
  by (simp add: issues_only_def praise_def)

lemma issues_only_pbind:
  assumes "issues_only C m" and "\<And>x. issues_only C (f x)"
  shows "issues_only C (pbind m f)"
  unfolding issues_only_def
proof (intro allI impI)
  fix s issued res s' issued'
  assume run: "pbind m f (s, issued) = (res, (s', issued'))"
  obtain r1 s1 i1 where m: "m (s, issued) = (r1, (s1, i1))"
    by (metis prod.collapse)
  with assms(1) have i1: "set i1 \<subseteq> set issued \<union> C"
    by (auto simp add: issues_only_def)
  show "set issued' \<subseteq> set issued \<union> C"
  proof (cases r1)
    case (Inl e)
    with run m i1 show ?thesis by (simp add: pbind_def)
  next
    case (Inr x)
    with run m have "f x (s1, i1) = (res, (s', issued'))" by (simp add: pbind_def)
    with assms(2) [of x] have "set issued' \<subseteq> set i1 \<union> C"
      by (auto simp add: issues_only_def)
    with i1 show ?thesis by auto
  qed
qed

lemma issues_only_pseq:
  "issues_only C m \<Longrightarrow> issues_only C n \<Longrightarrow> issues_only C (pseq m n)"
  by (simp add: pseq_def issues_only_pbind)

lemma issues_only_ptry:
  assumes "issues_only C m" and "\<And>e. issues_only C (h e)"
  shows "issues_only C (ptry m h)"
  unfolding issues_only_def
proof (intro allI impI)
  fix s issued res s' issued'
  assume run: "ptry m h (s, issued) = (res, (s', issued'))"
  obtain r1 s1 i1 where m: "m (s, issued) = (r1, (s1, i1))"
    by (metis prod.collapse)
  with assms(1) have i1: "set i1 \<subseteq> set issued \<union> C"
    by (auto simp add: issues_only_def)
  show "set issued' \<subseteq> set issued \<union> C"
  proof (cases r1)
    case (Inr x)
    with run m i1 show ?thesis by (simp add: ptry_def)
  next
    case (Inl e)
    with run m have "h e (s1, i1) = (res, (s', issued'))" by (simp add: ptry_def)
    with assms(2) [of e] have "set issued' \<subseteq> set i1 \<union> C"
      by (auto simp add: issues_only_def)
    with i1 show ?thesis by auto
  qed
qed

lemma issues_only_pignore:
  assumes "issues_only C m"
  shows "issues_only C (pignore m)"
  unfolding issues_only_def
proof (intro allI impI)
  fix s issued res s' issued'
  assume run: "pignore m (s, issued) = (res, (s', issued'))"
  obtain r1 s1 i1 where m: "m (s, issued) = (r1, (s1, i1))"
    by (metis prod.collapse)
  with assms have "set i1 \<subseteq> set issued \<union> C"
    by (auto simp add: issues_only_def)
  with run m show "set issued' \<subseteq> set issued \<union> C"
    by (simp add: pignore_def)
qed

lemma issues_only_if:
  "(b \<Longrightarrow> issues_only C m) \<Longrightarrow> (\<not> b \<Longrightarrow> issues_only C n) \<Longrightarrow> issues_only C (if b then m else n)"
  by simp

lemma issues_only_execute:
  "cmd \<in> C \<Longrightarrow> issues_only C (sc_execute_command (recording_session sc) cmd)"
  by (auto simp add: issues_only_def dest: recording_execute)

lemma issues_only_execute_and_record:
  "cmd \<in> C \<Longrightarrow> issues_only C (execute_and_record (recording_session sc) cmd ce)"
  by (simp add: execute_and_record_def issues_only_pbind issues_only_execute issues_only_preturn)

text \<open>
  Whatever the device answers and however the run ends, \<open>autorizar_ont\<close> gives the device
  no tag command unless the mode, in lower case, is \<open>bridging\<close>.
\<close>

lemma autorizar_ont_never_tags:
  assumes "py_lower onu_mode \<noteq> ''bridging''"
  shows "issues_only {c. c \<noteq> vlan_tag_command vlan}
           (autorizar_ont (recording_session sc) board port onu_id sn onu_type vlan zone name onu_mode)"
  unfolding autorizar_ont_def Let_def
  using assms
  by (intro issues_only_if issues_only_pbind issues_only_ptry issues_only_pseq
        issues_only_pignore issues_only_praise issues_only_preturn
        issues_only_execute issues_only_execute_and_record)
     (simp_all add: vlan_tag_command_def)

text \<open>The commands given to the device in a run that returns its result.\<close>

lemma autorizar_ont_issued:
  assumes "autorizar_ont (recording_session sc) board port onu_id sn onu_type vlan zone name onu_mode
             (s, issued0) = (Inr r, (s', issued))"
  shows "issued = issued0 @
           [''configure terminal'',
            ''interface gpon-olt_1/'' @ board @ ''/'' @ port,
            ''onu '' @ onu_id @ '' type '' @ onu_type @ '' sn '' @ filter is_alnum sn,
            ''exit'',
            ''interface gpon-onu_1/'' @ board @ ''/'' @ port @ '':'' @ onu_id] @
           (if name \<noteq> [] then [''name '' @ py_replace '' '' ''_'' name] else []) @
           [''sn-bind enable sn'', ''tcont 1 name T1 profile UL1G'',
            ''gemport 1 unicast tcont 1 dir both'', ''encrypt 1 enable downstream'',
            ''switchport mode hybrid vport 1'',
            ''service-port 1 vport 1 user-vlan '' @ vlan @ '' vlan '' @ vlan,
            ''exit'',
            ''pon-onu-mng gpon-onu_1/'' @ board @ ''/'' @ port @ '':'' @ onu_id,
            ''service ServiceName type internet gemport 1 vlan '' @ vlan] @
           (if py_lower onu_mode = ''bridging'' then [vlan_tag_command vlan] else []) @
           [''exit'', ''exit'', ''write'']"
proof -
  from assms have ok: "board \<noteq> [] \<and> port \<noteq> [] \<and> onu_id \<noteq> [] \<and> sn \<noteq> [] \<and> onu_type \<noteq> [] \<and> vlan \<noteq> []"
    by (auto simp add: autorizar_ont_def praise_def split: if_splits)
  from assms ok show ?thesis
    unfolding autorizar_ont_def Let_def
    apply (simp only: if_False not_not simp_thms)
    apply (erule pbind_InrE)
    apply (drule ptry_reraise_InrD)
    apply (elim pbind_InrE)
    apply (auto simp add: preturn_def split: if_splits
             dest!: recording_execute_and_record recording_execute)
    done
qed

lemma mirrorsD:
  assumes "mirrors m m'"
  obtains issued' where "m' (s, issued) = (fst (m s), (snd (m s), issued'))"
proof -
  from assms have "fst (m' (s, issued)) = fst (m s)" "fst (snd (m' (s, issued))) = snd (m s)"
    by (simp_all add: mirrors_def)
  then have "m' (s, issued) = (fst (m s), (snd (m s), snd (snd (m' (s, issued)))))"
    by (metis prod.collapse)
  then show ?thesis by (rule that)
qed

lemma mirrors_preturn: "mirrors (preturn x) (preturn x)"
  by (simp add: mirrors_def preturn_def)

lemma mirrors_praise: "mirrors (praise e) (praise e)"
  by (simp add: mirrors_def praise_def)

lemma mirrors_pbind:
  assumes "mirrors m m'" and "\<And>x. mirrors (f x) (f' x)"
  shows "mirrors (pbind m f) (pbind m' f')"
  unfolding mirrors_def
proof (intro allI)
  fix s issued
  obtain i1 where m': "m' (s, issued) = (fst (m s), (snd (m s), i1))"
    using assms(1) by (rule mirrorsD)
  show "fst (pbind m' f' (s, issued)) = fst (pbind m f s)
        \<and> fst (snd (pbind m' f' (s, issued))) = snd (pbind m f s)"
  proof (cases "fst (m s)")
    case (Inl e)
    with m' show ?thesis
      by (cases "m s") (simp add: pbind_def)
  next
    case (Inr x)
    obtain i2 where "f' x (snd (m s), i1) = (fst (f x (snd (m s))), (snd (f x (snd (m s))), i2))"
      using assms(2) [of x] by (rule mirrorsD)
    with Inr m' show ?thesis
      by (cases "m s") (simp add: pbind_def)
  qed
qed

lemma mirrors_pseq:
  "mirrors m m' \<Longrightarrow> mirrors n n' \<Longrightarrow> mirrors (pseq m n) (pseq m' n')"
  by (simp add: pseq_def mirrors_pbind)

lemma mirrors_ptry:
  assumes "mirrors m m'" and "\<And>e. mirrors (h e) (h' e)"
  shows "mirrors (ptry m h) (ptry m' h')"
  unfolding mirrors_def
proof (intro allI)
  fix s issued
  obtain i1 where m': "m' (s, issued) = (fst (m s), (snd (m s), i1))"
    using assms(1) by (rule mirrorsD)
  show "fst (ptry m' h' (s, issued)) = fst (ptry m h s)
        \<and> fst (snd (ptry m' h' (s, issued))) = snd (ptry m h s)"
  proof (cases "fst (m s)")
    case (Inr x)
    with m' show ?thesis
      by (cases "m s") (simp add: ptry_def)
  next
    case (Inl e)
    obtain i2 where "h' e (snd (m s), i1) = (fst (h e (snd (m s))), (snd (h e (snd (m s))), i2))"
      using assms(2) [of e] by (rule mirrorsD)
    with Inl m' show ?thesis
      by (cases "m s") (simp add: ptry_def)
  qed
qed

lemma mirrors_pignore:
  assumes "mirrors m m'"
  shows "mirrors (pignore m) (pignore m')"
  unfolding mirrors_def
proof (intro allI)
  fix s issued
  obtain i1 where "m' (s, issued) = (fst (m s), (snd (m s), i1))"
    using assms by (rule mirrorsD)
  then show "fst (pignore m' (s, issued)) = fst (pignore m s)
        \<and> fst (snd (pignore m' (s, issued))) = snd (pignore m s)"
    by (cases "m s") (simp add: pignore_def)
qed

lemma mirrors_if:
  "(b \<Longrightarrow> mirrors m m') \<Longrightarrow> (\<not> b \<Longrightarrow> mirrors n n')
   \<Longrightarrow> mirrors (if b then m else n) (if b then m' else n')"
  by simp

lemma mirrors_execute:
  "mirrors (sc_execute_command sc cmd) (sc_execute_command (recording_session sc) cmd)"
  by (simp add: mirrors_def recording_session_def split: prod.splits)

lemma mirrors_execute_and_record:
  "mirrors (execute_and_record sc cmd ce) (execute_and_record (recording_session sc) cmd ce)"
  by (simp add: execute_and_record_def mirrors_pbind mirrors_execute mirrors_preturn)

text \<open>A recording session changes nothing in what \<open>autorizar_ont\<close> returns or does to the session.\<close>

lemma autorizar_ont_recording:
  "mirrors (autorizar_ont sc board port onu_id sn onu_type vlan zone name onu_mode)
           (autorizar_ont (recording_session sc) board port onu_id sn onu_type vlan zone name onu_mode)"
  unfolding autorizar_ont_def Let_def
  by (intro mirrors_if mirrors_pbind mirrors_ptry mirrors_pseq mirrors_pignore mirrors_praise
        mirrors_preturn mirrors_execute mirrors_execute_and_record)


lemma mirrors_run:
  assumes "mirrors m m'" and "m' (s, issued) = (res, (t, issued'))"
  shows "m s = (res, t)"
proof -
  from assms(1) have "fst (m' (s, issued)) = fst (m s)" "fst (snd (m' (s, issued))) = snd (m s)"
    by (simp_all add: mirrors_def)
  with assms(2) have "fst (m s) = res" "snd (m s) = t" by simp_all
  then show ?thesis by (metis prod.collapse)
qed

text \<open>
  C8. For every run of \<open>autorizar_ont\<close> that returns its result, the command
  \<open>vlan port eth_0/1 mode tag vlan <vlan>\<close> is in \<open>commands_executed\<close> exactly when the
  requested mode is \<open>bridging\<close> (the code compares \<open>onu_mode.lower()\<close>): it is there for
  mode \<open>bridging\<close> and it is absent for mode \<open>routing\<close>. The same holds of the commands
  given to the device, which a recording session keeps without changing the run: in a
  run that returns its result the tag command is given exactly when the mode is
  \<open>bridging\<close>, and for mode \<open>routing\<close> it is never given, however the run ends.
\<close>

theorem autorizar_ont_vlan_tag_iff_bridging:
  "(autorizar_ont sc board port onu_id sn onu_type vlan zone name onu_mode s = (Inr r, s') \<longrightarrow>
      (vlan_tag_command vlan \<in> set (ar_commands_executed r) \<longleftrightarrow> py_lower onu_mode = ''bridging'')
      \<and> (onu_mode = ''bridging'' \<longrightarrow> vlan_tag_command vlan \<in> set (ar_commands_executed r))
      \<and> (onu_mode = ''routing'' \<longrightarrow> vlan_tag_command vlan \<notin> set (ar_commands_executed r)))
   \<and> (autorizar_ont (recording_session sc) board port onu_id sn onu_type vlan zone name onu_mode
         (s, []) = (res, (t, issued)) \<longrightarrow>
      autorizar_ont sc board port onu_id sn onu_type vlan zone name onu_mode s = (res, t)
      \<and> (py_lower onu_mode \<noteq> ''bridging'' \<longrightarrow> vlan_tag_command vlan \<notin> set issued)
      \<and> (onu_mode = ''routing'' \<longrightarrow> vlan_tag_command vlan \<notin> set issued)
      \<and> (\<forall>r'. res = Inr r' \<longrightarrow>
            (vlan_tag_command vlan \<in> set issued \<longleftrightarrow> py_lower onu_mode = ''bridging'')
            \<and> (vlan_tag_command vlan \<in> set issued \<longleftrightarrow>
                 vlan_tag_command vlan \<in> set (ar_commands_executed r'))))"
proof (intro conjI impI)
  have b: "py_lower ''bridging'' = ''bridging''" by code_simp
  have ro: "py_lower ''routing'' \<noteq> ''bridging''" by code_simp
  {
    assume run: "autorizar_ont sc board port onu_id sn onu_type vlan zone name onu_mode s = (Inr r, s')"
    have iff: "vlan_tag_command vlan \<in> set (ar_commands_executed r) \<longleftrightarrow> py_lower onu_mode = ''bridging''"
      unfolding autorizar_ont_commands [OF run]
      by (simp add: vlan_tag_command_def)
    then show "vlan_tag_command vlan \<in> set (ar_commands_executed r) \<longleftrightarrow> py_lower onu_mode = ''bridging''" .
    from iff b show "vlan_tag_command vlan \<in> set (ar_commands_executed r)" if "onu_mode = ''bridging''"
      using that by simp
    from iff ro show "vlan_tag_command vlan \<notin> set (ar_commands_executed r)" if "onu_mode = ''routing''"
      using that by simp
  }
  {
    assume run: "autorizar_ont (recording_session sc) board port onu_id sn onu_type vlan zone name
                   onu_mode (s, []) = (res, (t, issued))"
    show "autorizar_ont sc board port onu_id sn onu_type vlan zone name onu_mode s = (res, t)"
      using autorizar_ont_recording run by (rule mirrors_run)
    have never: "vlan_tag_command vlan \<notin> set issued" if "py_lower onu_mode \<noteq> ''bridging''"
      using issues_onlyD [OF autorizar_ont_never_tags [OF that] run] by auto
    then show "vlan_tag_command vlan \<notin> set issued" if "py_lower onu_mode \<noteq> ''bridging''"
      using that .
    from never ro show "vlan_tag_command vlan \<notin> set issued" if "onu_mode = ''routing''"
      using that by simp
    show "\<forall>r'. res = Inr r' \<longrightarrow>
            (vlan_tag_command vlan \<in> set issued \<longleftrightarrow> py_lower onu_mode = ''bridging'')
            \<and> (vlan_tag_command vlan \<in> set issued \<longleftrightarrow>
                 vlan_tag_command vlan \<in> set (ar_commands_executed r'))"
    proof (intro allI impI)
      fix r'
      assume "res = Inr r'"
      with run have run': "autorizar_ont (recording_session sc) board port onu_id sn onu_type vlan
                             zone name onu_mode (s, []) = (Inr r', (t, issued))"
        by simp
      have i: "vlan_tag_command vlan \<in> set issued \<longleftrightarrow> py_lower onu_mode = ''bridging''"
        unfolding autorizar_ont_issued [OF run']
        by (simp add: vlan_tag_command_def)
      have c: "vlan_tag_command vlan \<in> set (ar_commands_executed r') \<longleftrightarrow> py_lower onu_mode = ''bridging''"
        unfolding autorizar_ont_commands [OF run']
        by (simp add: vlan_tag_command_def)
      from i c show "(vlan_tag_command vlan \<in> set issued \<longleftrightarrow> py_lower onu_mode = ''bridging'')
            \<and> (vlan_tag_command vlan \<in> set issued \<longleftrightarrow>
                 vlan_tag_command vlan \<in> set (ar_commands_executed r'))"
        by simp
    qed
  }
qed


theorem autorizar_ont_vlan_tag_iff_bridging_witness:
  "fst (authorize_run ''bridging'') = Inr (authorized_result [vlan_tag_command ''100''])
   \<and> vlan_tag_command ''100'' \<in> set (ar_commands_executed (authorized_result [vlan_tag_command ''100'']))
   \<and> fst (authorize_run ''routing'') = Inr (authorized_result [])
   \<and> vlan_tag_command ''100'' \<notin> set (ar_commands_executed (authorized_result []))
   \<and> recorded_run ''bridging''
        = (Inr (authorized_result [vlan_tag_command ''100'']),
           issued_commands [vlan_tag_command ''100''], issued_commands [vlan_tag_command ''100''])
   \<and> vlan_tag_command ''100'' \<in> set (issued_commands [vlan_tag_command ''100''])
   \<and> recorded_run ''routing''
        = (Inr (authorized_result []), issued_commands [], issued_commands [])
   \<and> vlan_tag_command ''100'' \<notin> set (issued_commands [])"
proof -
  have fb: "fst (authorize_run ''bridging'') = Inr (authorized_result [vlan_tag_command ''100''])"
    by code_simp
  then have b: "autorizar_ont (answering_session []) ''2'' ''3'' ''7'' ''HWTC-0037DCC7'' ''ZTE-F660''
                  ''100'' [] ''casa juan'' ''bridging'' []
                = (Inr (authorized_result [vlan_tag_command ''100'']), snd (authorize_run ''bridging''))"
    unfolding authorize_run_def by (metis prod.collapse)
  have fr: "fst (authorize_run ''routing'') = Inr (authorized_result [])"
    by code_simp
  then have r: "autorizar_ont (answering_session []) ''2'' ''3'' ''7'' ''HWTC-0037DCC7'' ''ZTE-F660''
                  ''100'' [] ''casa juan'' ''routing'' []
                = (Inr (authorized_result []), snd (authorize_run ''routing''))"
    unfolding authorize_run_def by (metis prod.collapse)
  have rb: "recorded_run ''bridging''
        = (Inr (authorized_result [vlan_tag_command ''100'']),
           issued_commands [vlan_tag_command ''100''], issued_commands [vlan_tag_command ''100''])"
    by code_simp
  have rr: "recorded_run ''routing''
        = (Inr (authorized_result []), issued_commands [], issued_commands [])"
    by code_simp
  note tb = autorizar_ont_vlan_tag_iff_bridging
              [of "answering_session []" "''2''" "''3''" "''7''" "''HWTC-0037DCC7''" "''ZTE-F660''"
                  "''100''" "[]" "''casa juan''" "''bridging''" "[]"
                  "authorized_result [vlan_tag_command ''100'']" "snd (authorize_run ''bridging'')"
                  "Inr (authorized_result [vlan_tag_command ''100''])"
                  "issued_commands [vlan_tag_command ''100'']"
                  "issued_commands [vlan_tag_command ''100'']"]
  note tr = autorizar_ont_vlan_tag_iff_bridging
              [of "answering_session []" "''2''" "''3''" "''7''" "''HWTC-0037DCC7''" "''ZTE-F660''"
                  "''100''" "[]" "''casa juan''" "''routing''" "[]"
                  "authorized_result []" "snd (authorize_run ''routing'')"
                  "Inr (authorized_result [])" "issued_commands []" "issued_commands []"]
  from tb b have c1: "vlan_tag_command ''100''
                        \<in> set (ar_commands_executed (authorized_result [vlan_tag_command ''100'']))"
    by blast
  from tr r have c2: "vlan_tag_command ''100'' \<notin> set (ar_commands_executed (authorized_result []))"
    by blast
  from tb rb c1 have c3: "vlan_tag_command ''100'' \<in> set (issued_commands [vlan_tag_command ''100''])"
    unfolding recorded_run_def by blast
  from tr rr have c4: "vlan_tag_command ''100'' \<notin> set (issued_commands [])"
    unfolding recorded_run_def by blast
  from fb fr rb rr c1 c2 c3 c4 show ?thesis by blast
qed

section \<open>The optional fields of the records\<close>































section \<open>Validation of board and port\<close>

text \<open>
  A pair that the validation rejects makes the records query raise \<open>ValueError\<close> with
  the pool unchanged, as long as the session is not inside an interface (the \<open>except\<close>
  block of \<open>obtener_onts\<close> calls \<open>exit_interface\<close>).
\<close>

lemma obtener_onts_rejects_invalid:
  assumes "\<not> validate_parameters tarjeta puerto"
      and "\<not> startswith (get_session_context session_id p) ''interface''"
  shows "obtener_onts (pool_session net session_id) float_ok ONT tarjeta puerto p
           = (Inl (invalid_parameters tarjeta puerto), p)"
  using assms
  by (simp add: obtener_onts_def ptry_def praise_def pseq_def pbind_def pignore_def
        pool_session_def exit_interface_def preturn_def)

text \<open>
  C9. The claim is that every board that is not the decimal text of an integer of 1..17 is
  rejected before any device command. The board \<open>5\<close> followed by a newline is not such a
  text, yet the pattern \<open>^(1[0-7]|[1-9])$\<close> matches it, the validation accepts it and the
  state command, with the newline inside, is written to the channel.
\<close>

theorem validation_accepts_trailing_newline:
  "validate_parameters (''5'' @ newline) ''3''
   \<and> fst (obtener_onts (pool_session empty_port_net ''u1'') (\<lambda>t. True) Some (''5'' @ newline) ''3''
            fresh_session_pool) = Inr []
   \<and> session_sent ''u1''
        (snd (obtener_onts (pool_session empty_port_net ''u1'') (\<lambda>t. True) Some (''5'' @ newline) ''3''
               fresh_session_pool))
      = [''configure terminal'' @ newline, ''screen-length 0 temporary'' @ newline,
         ''show gpon onu state gpon-olt_1/5'' @ newline @ ''/3'']"
  by code_simp

end
